theory Spec2Isabelle
  imports Complex_Main "HOL-Library.Word" "HOL-Library.Log_Nat"
begin

unbundle bit_operations_syntax

section \<open>Shared vocabulary\<close>

text \<open>
  Byte strings are lists of octets. A \<open>cid.Cid\<close> wraps the binary form of a content
  identifier; \<open>cid.Undef\<close> is its zero value. A Go \<open>error\<close> built by
  \<open>xerrors.Errorf\<close> carries a message.
\<close>

type_synonym bytes = "8 word list"

datatype cid = CidStr string

definition Undef :: cid where
  "Undef = CidStr []"

datatype go_error = Errorf string

type_synonym address = string

text \<open>
  Modelled from the spec: package \<open>hierarchical\<close> (the type \<open>SubnetID\<close>, \<open>NewSubnetID\<close>
  and \<open>SubnetID.Actor\<close>) is not among the sources. The spec describes a SubnetID as the
  ordered list of addresses from the root to the leaf, the root being the empty path, and
  a subnet's ID as its parent's ID followed by the subnet actor's address. In the Go code
  a SubnetID is a string type and the checkpoint schema stores its string form; the model
  keeps the SubnetID itself in those fields.
\<close>

type_synonym SubnetID = "address list"

definition NewSubnetID :: "SubnetID \<Rightarrow> address \<Rightarrow> SubnetID" where
  "NewSubnetID parentName SubnetActorAddr = parentName @ [SubnetActorAddr]"

definition Actor :: "SubnetID \<Rightarrow> go_error + address" where
  "Actor sid = (if sid = [] then Inl (Errorf ''no actor in the root path'') else Inr (last sid))"

section \<open>Checkpoint schema (package schema)\<close>

text \<open>
  The schema file among the sources has child entries with one \<open>Check\<close> each and the
  empty \<open>MsgTreeList\<close> as cross-message slot; the coordinator actor is written against
  the later schema of the spec (child entries with a list of checks, a list of message
  metas). Both are instances of one record shape, so the record takes the child entry
  type and the cross-message type as parameters and \<open>Cid\<close> and \<open>Equals\<close> are embedded once.
\<close>

datatype ChildCheck = ChildCheck (ChildSource: SubnetID) (Check: cid)

datatype MsgTreeList = MsgTreeList

record ('c, 'x) CheckData =
  Source :: SubnetID
  TipSet :: bytes
  Epoch :: int
  PrevCheckpoint :: cid
  Childs :: "'c list"
  XShardMsg :: "'x option"

record ('c, 'x) Checkpoint =
  Data :: "('c, 'x) CheckData"
  Signature :: bytes

text \<open>
  \<open>NewRawCheckpoint\<close> of the schema file: the template leaves tipset, children and
  signature at their zero values.
\<close>

definition NewRawCheckpoint ::
  "SubnetID \<Rightarrow> int \<Rightarrow> cid \<Rightarrow> 'x option \<Rightarrow> ('c, 'x) Checkpoint" where
  "NewRawCheckpoint source epoch prev xmsgs =
     \<lparr>Data = \<lparr>Source = source, TipSet = [], Epoch = epoch, PrevCheckpoint = prev,
               Childs = [], XShardMsg = xmsgs\<rparr>,
      Signature = []\<rparr>"

text \<open>
  \<open>Checkpoint.Cid\<close>. The link system (codec DAG-CBOR, SHA-256 cut to 16 bytes) belongs
  to go-ipld-prime; it is the parameter \<open>ComputeLink\<close>, which maps the node handed to it to
  a link or an error. The method builds a fresh checkpoint holding only \<open>c.Data\<close> and
  links that.
\<close>

definition Cid ::
  "(('c, 'x) Checkpoint \<Rightarrow> go_error + cid) \<Rightarrow> ('c, 'x) Checkpoint \<Rightarrow> go_error + cid" where
  "Cid ComputeLink c =
     (let ch = \<lparr>Data = Data c, Signature = []\<rparr>
      in case ComputeLink ch of Inl err \<Rightarrow> Inl err | Inr lnk \<Rightarrow> Inr lnk)"

text \<open>\<open>Checkpoint.Equals\<close>: the first failing \<open>Cid\<close> is returned as the error.\<close>

definition Equals ::
  "(('c, 'x) Checkpoint \<Rightarrow> go_error + cid) \<Rightarrow> ('c, 'x) Checkpoint
     \<Rightarrow> ('c, 'x) Checkpoint \<Rightarrow> go_error + bool" where
  "Equals ComputeLink c ch =
     (case Cid ComputeLink c of
        Inl err \<Rightarrow> Inl err
      | Inr c1 \<Rightarrow>
          (case Cid ComputeLink ch of
             Inl err \<Rightarrow> Inl err
           | Inr c2 \<Rightarrow> Inr (c1 = c2)))"

text \<open>
  \<open>Checkpoint.hasChild\<close>: the index of the first child entry with the source of
  \<open>child\<close>, or \<open>-1\<close>. The first argument of the loop is the index of the head.
\<close>

fun hasChild_from :: "int \<Rightarrow> ChildCheck list \<Rightarrow> ChildCheck \<Rightarrow> int" where
  "hasChild_from i [] child = -1"
| "hasChild_from i (ch # rest) child =
     (if ChildSource ch = ChildSource child then i else hasChild_from (i + 1) rest child)"

definition hasChild :: "(ChildCheck, 'x) Checkpoint \<Rightarrow> ChildCheck \<Rightarrow> int" where
  "hasChild c child = hasChild_from 0 (Childs (Data c)) child"

text \<open>
  One round of the loop of \<open>Checkpoint.AddChildChecks\<close>: when \<open>hasChild\<close> finds an entry
  it is overwritten in place, and in every case the new entry is appended.
\<close>

definition AddChildCheck :: "(ChildCheck, 'x) Checkpoint \<Rightarrow> ChildCheck \<Rightarrow> (ChildCheck, 'x) Checkpoint" where
  "AddChildCheck c ch =
     (let ind = hasChild c ch;
          c1 = (if ind \<ge> 0
                then c\<lparr>Data := (Data c)\<lparr>Childs := (Childs (Data c))[nat ind := ch]\<rparr>\<rparr>
                else c)
      in c1\<lparr>Data := (Data c1)\<lparr>Childs := Childs (Data c1) @ [ch]\<rparr>\<rparr>)"

fun AddChildChecks :: "(ChildCheck, 'x) Checkpoint \<Rightarrow> ChildCheck list \<Rightarrow> (ChildCheck, 'x) Checkpoint" where
  "AddChildChecks c [] = c"
| "AddChildChecks c (ch # childs) = AddChildChecks (AddChildCheck c ch) childs"

section \<open>Subnet actor: the vote tally (package subnet)\<close>

subsection \<open>Single-precision arithmetic\<close>

text \<open>
  \<open>majorityVote\<close> divides and compares in \<open>float32\<close>. The values it can meet are the
  non-negative finite ones, \<open>+Inf\<close> and \<open>NaN\<close>; a finite value is the rational number it
  stands for. \<open>round32\<close> rounds a non-negative rational to the nearest number with a
  significand of 24 bits, ties to the even significand, as the conversion to \<open>float32\<close>
  and the division do (IEEE 754 binary32, within its normal range, where lengths and
  their quotients lie).

  \<open>ilog2 x\<close> is the binary exponent of a positive \<open>x\<close>: \<open>2^e \<le> x < 2^(e+1)\<close>. \<open>rne\<close>
  rounds to the nearest integer, ties to even.
\<close>

definition ilog2 :: "rat \<Rightarrow> int" where
  "ilog2 x = (if 1 \<le> x then int (floorlog 2 (nat \<lfloor>x\<rfloor>)) - 1
              else - int (floorlog 2 (nat (\<lceil>1 / x\<rceil> - 1))))"

definition rne :: "rat \<Rightarrow> int" where
  "rne y = (let f = \<lfloor>y\<rfloor>; d = y - of_int f
            in if d < 1 / 2 then f else if 1 / 2 < d then f + 1
               else if even f then f else f + 1)"

definition round32 :: "rat \<Rightarrow> rat" where
  "round32 x = (if x = 0 then 0
                else (let e = ilog2 x; u = 2 powi (e - 23) in of_int (rne (x / u)) * u))"

datatype float32 = Finite rat | Inf | NaN

text \<open>\<open>float32(len(xs))\<close>: the conversion of a length.\<close>

definition float32_of_len :: "nat \<Rightarrow> float32" where
  "float32_of_len n = Finite (round32 (of_nat n))"

text \<open>
  Division: a positive value over zero is \<open>+Inf\<close> and zero over zero is \<open>NaN\<close>; Go does
  not panic on a floating-point division by zero.
\<close>

fun float32_div :: "float32 \<Rightarrow> float32 \<Rightarrow> float32" where
  "float32_div (Finite x) (Finite y) =
     (if y = 0 then (if x = 0 then NaN else Inf) else Finite (round32 (x / y)))"
| "float32_div (Finite x) Inf = Finite 0"
| "float32_div Inf (Finite y) = Inf"
| "float32_div Inf Inf = NaN"
| "float32_div NaN y = NaN"
| "float32_div x NaN = NaN"

text \<open>The comparison \<open>>=\<close>: false whenever an operand is \<open>NaN\<close>.\<close>

fun float32_ge :: "float32 \<Rightarrow> float32 \<Rightarrow> bool" where
  "float32_ge (Finite x) (Finite y) = (y \<le> x)"
| "float32_ge (Finite x) Inf = False"
| "float32_ge Inf (Finite y) = True"
| "float32_ge Inf Inf = True"
| "float32_ge NaN y = False"
| "float32_ge x NaN = False"

subsection \<open>State and majority\<close>

text \<open>\<open>SignatureThreshold = float32(0.66)\<close>: the constant 0.66 rounded to \<open>float32\<close>.\<close>

definition SignatureThreshold :: float32 where
  "SignatureThreshold = Finite (round32 (66 / 100))"

datatype ConsensusType = Delegated | PoW

datatype SubnetStatus = Instantiated | Active | Inactive | Terminating | Killed

text \<open>
  \<open>SubnetState\<close> and \<open>CheckVotes\<close>. The balance table and the two HAMTs, held by root
  CID in Go, are maps here.
\<close>

record CheckVotes =
  Miners :: "address list"

record SubnetState =
  Name :: string
  ParentID :: SubnetID
  Consensus :: ConsensusType
  MinMinerStake :: int
  Miners :: "address list"
  TotalStake :: int
  Stake :: "address \<rightharpoonup> int"
  Status :: SubnetStatus
  Genesis :: bytes
  CheckPeriod :: int
  Checkpoints :: "64 word \<rightharpoonup> (ChildCheck, MsgTreeList) Checkpoint"
  WindowChecks :: "cid \<rightharpoonup> CheckVotes"

definition majorityVote :: "SubnetState \<Rightarrow> CheckVotes \<Rightarrow> bool" where
  "majorityVote st wch =
     float32_ge
       (float32_div (float32_of_len (length (CheckVotes.Miners wch)))
                    (float32_of_len (length (SubnetState.Miners st))))
       SignatureThreshold"

section \<open>Block messages (package types)\<close>

text \<open>
  \<open>BlockMsg\<close> and \<open>OldBlockMsg\<close>. The header is a pointer and the message lists are
  slices: \<open>None\<close> stands for \<open>nil\<close>. The type of block headers is a parameter.
\<close>

record 'h BlockMsg =
  Header :: "'h option"
  BlsMessages :: "cid list option"
  SecpkMessages :: "cid list option"
  CrossMessages :: "cid list option"

record 'h OldBlockMsg =
  Header :: "'h option"
  BlsMessages :: "cid list option"
  SecpkMessages :: "cid list option"

text \<open>
  \<open>DecodeBlockMsg\<close>. The two \<open>UnmarshalCBOR\<close> methods are generated code outside the
  sources; they are parameters. Each is called on a variable at its zero value and
  returns an error or none; what it has written into the variable by then is the first
  component of its result. After a failed decode in the current format the function
  keeps that variable and overwrites three of its fields from the legacy message.
\<close>

definition DecodeBlockMsg ::
  "(bytes \<Rightarrow> 'h BlockMsg \<times> go_error option) \<Rightarrow> (bytes \<Rightarrow> 'h OldBlockMsg \<times> go_error option)
     \<Rightarrow> bytes \<Rightarrow> go_error + 'h BlockMsg" where
  "DecodeBlockMsg UnmarshalCBOR OldUnmarshalCBOR b =
     (case UnmarshalCBOR b of
        (bm, None) \<Rightarrow> Inr bm
      | (bm, Some err) \<Rightarrow>
          (case OldUnmarshalCBOR b of
             (obm, Some err) \<Rightarrow> Inl err
           | (obm, None) \<Rightarrow>
               Inr (bm\<lparr>BlockMsg.Header := OldBlockMsg.Header obm,
                       BlockMsg.BlsMessages := OldBlockMsg.BlsMessages obm,
                       BlockMsg.SecpkMessages := OldBlockMsg.SecpkMessages obm\<rparr>)))"

section \<open>Subnet coordinator actor: state (package sca)\<close>

text \<open>
  Exit codes with which an actor call aborts. \<open>SysErrForbidden\<close> is the code of the
  runtime's caller validation; the other three are the codes the actor passes to
  \<open>rt.Abortf\<close> and \<open>builtin.RequireNoErr\<close>.
\<close>

datatype exitcode = ErrIllegalArgument | ErrIllegalState | ErrForbidden | SysErrForbidden

datatype Status = Active | Inactive | Killed

datatype CodeID = SubnetActorCodeID | AccountActorCodeID | SystemActorCodeID | OtherCodeID string

text \<open>
  Modelled from the spec: the later checkpoint schema the coordinator is written against
  is not among the sources. The spec gives it as
  \<open>ChildCheck {Source, Checks [Link]}\<close>,
  \<open>CrossMsgMeta {From, To, MsgsCid, Nonce, Value}\<close> and \<open>MsgMetaList {Metas}\<close>, the
  cross-message slot of \<open>CheckData\<close> being an optional \<open>MsgMetaList\<close>.
\<close>

datatype ChildChecks = ChildChecks (CCSource: SubnetID) (Checks: "cid list")

record CrossMsgMeta =
  From :: SubnetID
  To :: SubnetID
  MsgsCid :: cid
  Nonce :: int
  Value :: int

datatype MsgMetaList = MsgMetaList (Metas: "CrossMsgMeta list")

type_synonym SCACheckpoint = "(ChildChecks, MsgMetaList) Checkpoint"

text \<open>
  Modelled from the spec: the top-down cross-message of \<open>Fund\<close> (its type is not among
  the sources). The spec names its addressee, its amount and its nonce.
\<close>

record Message =
  To :: address
  Value :: int
  Nonce :: "64 word"

text \<open>
  Modelled from the spec: the declaration of \<open>Subnet\<close> is not among the sources. The
  fields are those of the spec's registry entry, under the names \<open>registerSubnet\<close>
  uses. The AMT of top-down messages is a map from nonce to message.
\<close>

record Subnet =
  ID :: SubnetID
  ParentID :: SubnetID
  Stake :: int
  TopDownMsgs :: "64 word \<rightharpoonup> Message"
  Nonce :: "64 word"
  CircSupply :: int
  Status :: Status
  PrevCheckpoint :: SCACheckpoint

record ConstructorParams =
  NetworkName :: SubnetID
  CheckpointPeriod :: "64 word"

text \<open>
  \<open>SCAState\<close>. The HAMTs and the AMT, held by root CID in Go, are maps here; the
  checkpoint HAMT is keyed by \<open>uint64(epoch)\<close>.
\<close>

record SCAState =
  NetworkName :: SubnetID
  TotalSubnets :: "64 word"
  MinStake :: int
  Subnets :: "SubnetID \<rightharpoonup> Subnet"
  CheckPeriod :: int
  Checkpoints :: "64 word \<rightharpoonup> SCACheckpoint"
  CheckMsgsRegistry :: "cid \<rightharpoonup> CrossMsgMeta list"
  Nonce :: "64 word"
  BottomUpNonce :: "64 word"
  BottomUpMsgsMeta :: "64 word \<rightharpoonup> CrossMsgMeta"
  AppliedBottomUpNonce :: "64 word"
  AppliedTopDownNonce :: "64 word"

definition DefaultCheckpointPeriod :: int where
  "DefaultCheckpointPeriod = 10"

definition MinCheckpointPeriod :: int where
  "MinCheckpointPeriod = 10"

definition MaxNonce :: "64 word" where
  "MaxNonce = NOT 0"

definition MinSubnetStake :: int where
  "MinSubnetStake = 10 ^ 18"

text \<open>
  The blockstore behind \<open>adt.Store\<close> belongs to the host. The model knows of a store only
  whether its operations succeed; every load, put and flush of a failing store returns an
  error.
\<close>

record Store =
  Healthy :: bool

definition StoreEmptyMap :: "Store \<Rightarrow> go_error + ('k \<rightharpoonup> 'v)" where
  "StoreEmptyMap store =
     (if Healthy store then Inr Map.empty else Inl (Errorf ''store: put failed''))"

definition StoreEmptyArray :: "Store \<Rightarrow> go_error + ('k \<rightharpoonup> 'v)" where
  "StoreEmptyArray store =
     (if Healthy store then Inr Map.empty else Inl (Errorf ''store: put failed''))"

text \<open>
  \<open>ConstructSCAState\<close>. The period parameter is a \<open>uint64\<close> converted to the signed
  \<open>abi.ChainEpoch\<close>. Fields the composite literal leaves out start at zero.
\<close>

definition ConstructSCAState :: "Store \<Rightarrow> ConstructorParams \<Rightarrow> go_error + SCAState" where
  "ConstructSCAState store params =
     (case StoreEmptyMap store of
        Inl err \<Rightarrow> Inl (Errorf ''failed to create empty map'')
      | Inr emptySubnetsMap \<Rightarrow>
     (case StoreEmptyMap store of
        Inl err \<Rightarrow> Inl (Errorf ''failed to create empty map'')
      | Inr emptyCheckpointsMap \<Rightarrow>
     (case StoreEmptyMap store of
        Inl err \<Rightarrow> Inl (Errorf ''failed to create empty map'')
      | Inr emptyMsgsMetaMap \<Rightarrow>
     (case StoreEmptyArray store of
        Inl err \<Rightarrow> Inl (Errorf ''failed to create empty AMT'')
      | Inr emptyBottomUpMsgsAMT \<Rightarrow>
          (let nn = ConstructorParams.NetworkName params;
               period = sint (CheckpointPeriod params);
               period = (if period < MinCheckpointPeriod then DefaultCheckpointPeriod else period)
           in Inr \<lparr>NetworkName = nn,
                   TotalSubnets = 0,
                   MinStake = MinSubnetStake,
                   Subnets = emptySubnetsMap,
                   CheckPeriod = period,
                   Checkpoints = emptyCheckpointsMap,
                   CheckMsgsRegistry = emptyMsgsMetaMap,
                   SCAState.Nonce = 0,
                   BottomUpNonce = 0,
                   BottomUpMsgsMeta = emptyBottomUpMsgsAMT,
                   AppliedBottomUpNonce = MaxNonce,
                   AppliedTopDownNonce = 0\<rparr>)))))"

section \<open>Subnet coordinator actor: methods (package sca)\<close>

text \<open>
  What a method sees of the runtime: the immediate caller and the code of its actor, the
  value received with the message, the balance of the coordinator, the current epoch, the
  store, and for a value transfer to an address whether the exit code of \<open>rt.Send\<close> is a
  success.

  A method is a function from the state before the call to either the exit code of the
  abort or the result of the call. An abort persists nothing: \<open>rt.StateTransaction\<close>
  saves the state only when its body returns, and an abort after it rolls the message
  back.
\<close>

record Runtime =
  Caller :: address
  CallerCode :: CodeID
  ValueReceived :: int
  CurrentBalance :: int
  CurrEpoch :: int
  AsStore :: Store
  Send :: "address \<Rightarrow> int \<Rightarrow> bool"

definition ValidateImmediateCallerType :: "Runtime \<Rightarrow> CodeID list \<Rightarrow> exitcode + unit" where
  "ValidateImmediateCallerType rt types =
     (if CallerCode rt \<in> set types then Inr () else Inl SysErrForbidden)"

text \<open>The state after a call: that of the result, or the state before when it aborted.\<close>

definition StateAfter :: "SCAState \<Rightarrow> exitcode + SCAState \<times> 'r \<Rightarrow> SCAState" where
  "StateAfter st res = (case res of Inl code \<Rightarrow> st | Inr (st', r) \<Rightarrow> st')"

text \<open>\<open>SCAState.GetSubnet\<close> with \<open>getSubnet\<close>: \<open>None\<close> stands for "not found".\<close>

definition GetSubnet :: "SCAState \<Rightarrow> Store \<Rightarrow> SubnetID \<Rightarrow> go_error + Subnet option" where
  "GetSubnet st s sid =
     (if Healthy s then Inr (Subnets st sid) else Inl (Errorf ''failed to load subnets''))"

definition flushSubnet :: "Runtime \<Rightarrow> Subnet \<Rightarrow> SCAState \<Rightarrow> exitcode + SCAState" where
  "flushSubnet rt sh st =
     (if Healthy (AsStore rt) then Inr (st\<lparr>Subnets := (Subnets st)(ID sh \<mapsto> sh)\<rparr>)
      else Inl ErrIllegalState)"

text \<open>
  \<open>SCAState.registerSubnet\<close>. The empty checkpoint \<open>schema.EmptyCheckpoint\<close> is a
  variable of the later schema package; it is the parameter \<open>EmptyCheckpoint\<close>.
\<close>

definition registerSubnet ::
  "SCACheckpoint \<Rightarrow> Runtime \<Rightarrow> SubnetID \<Rightarrow> int \<Rightarrow> SCAState \<Rightarrow> exitcode + SCAState" where
  "registerSubnet EmptyCheckpoint rt shid stake st =
     (case StoreEmptyArray (AsStore rt) of
        Inl err \<Rightarrow> Inl ErrIllegalState
      | Inr emptyTopDownMsgsAMT \<Rightarrow>
          (let status = Active;
               sh = \<lparr>ID = shid,
                     ParentID = NetworkName st,
                     Stake = stake,
                     TopDownMsgs = emptyTopDownMsgsAMT,
                     Subnet.Nonce = 0,
                     CircSupply = 0,
                     Status = status,
                     PrevCheckpoint = EmptyCheckpoint\<rparr>;
               st1 = st\<lparr>TotalSubnets := TotalSubnets st + 1\<rparr>
           in flushSubnet rt sh st1))"

text \<open>
  \<open>SubnetCoordActor.Register\<close>. The error of \<open>GetSubnet\<close> is dropped by the source, so
  a failing store reads as "not registered". The result is the new state with the
  SubnetID returned to the caller.
\<close>

definition Register ::
  "SCACheckpoint \<Rightarrow> Runtime \<Rightarrow> SCAState \<Rightarrow> exitcode + SCAState \<times> SubnetID" where
  "Register EmptyCheckpoint rt st =
     (case ValidateImmediateCallerType rt [SubnetActorCodeID] of
        Inl code \<Rightarrow> Inl code
      | Inr _ \<Rightarrow>
          (let SubnetActorAddr = Caller rt;
               shid = NewSubnetID (NetworkName st) SubnetActorAddr;
               has = (case GetSubnet st (AsStore rt) shid of
                        Inr (Some sh) \<Rightarrow> True
                      | _ \<Rightarrow> False)
           in if has then Inl ErrIllegalArgument
              else (let value = ValueReceived rt
                    in if value \<le> MinStake st then Inl ErrIllegalArgument
                       else (case registerSubnet EmptyCheckpoint rt shid value st of
                               Inl code \<Rightarrow> Inl code
                             | Inr st' \<Rightarrow> Inr (st', shid)))))"

text \<open>
  \<open>SubnetCoordActor.Kill\<close>. The result is the new state with the value transfer made
  after the transaction: the address paid and the amount. A failed transfer aborts the
  call. \<open>Delete\<close> is given the SubnetID as key, which is the key \<open>flushSubnet\<close> stores
  the entry under; the entry was found just before, so only a failing store makes the
  removal fail.
\<close>

definition Kill :: "Runtime \<Rightarrow> SCAState \<Rightarrow> exitcode + SCAState \<times> (address \<times> int)" where
  "Kill rt st =
     (case ValidateImmediateCallerType rt [SubnetActorCodeID] of
        Inl code \<Rightarrow> Inl code
      | Inr _ \<Rightarrow>
          (let SubnetActorAddr = Caller rt;
               shid = NewSubnetID (NetworkName st) SubnetActorAddr
           in case GetSubnet st (AsStore rt) shid of
                Inl err \<Rightarrow> Inl ErrIllegalState
              | Inr None \<Rightarrow> Inl ErrIllegalArgument
              | Inr (Some sh) \<Rightarrow>
                  if CurrentBalance rt < Stake sh then Inl ErrIllegalState
                  else if CircSupply sh > 0 then Inl ErrForbidden
                  else if \<not> Healthy (AsStore rt) then Inl ErrIllegalState
                  else (let st' = st\<lparr>Subnets := (Subnets st)(shid := None)\<rparr>
                        in if Send rt SubnetActorAddr (Stake sh)
                           then Inr (st', (SubnetActorAddr, Stake sh))
                           else Inl ErrIllegalState)))"

text \<open>
  Modelled from the spec: \<open>Subnet.freezeFunds\<close> is not among the sources. The spec on
  \<open>Fund\<close>: "Require subnet exists and is Active. \<open>circ_supply += value\<close>; value is held
  by the SC (frozen from the user's perspective)". \<open>Fund\<close> itself tests that the subnet
  exists; the requirement on the status and the increase are what is left to the helper.
  The spec names no exit code for a subnet that is not active; the model takes the one
  \<open>CommitChildCheckpoint\<close> aborts with in that case.
\<close>

definition freezeFunds :: "Runtime \<Rightarrow> address \<Rightarrow> int \<Rightarrow> Subnet \<Rightarrow> exitcode + Subnet" where
  "freezeFunds rt source value sh =
     (if Subnet.Status sh \<noteq> Active then Inl ErrIllegalState
      else Inr (sh\<lparr>CircSupply := CircSupply sh + value\<rparr>))"

text \<open>
  Modelled from the spec: \<open>Subnet.addFundMsg\<close> is not among the sources. The spec: "Emit
  a top-down cross-message with the funded amount addressed to the caller in the child;
  advance that subnet's nonce", where adding a top-down message is to "assign
  \<open>nonce = subnet.nonce\<close>, store \<open>msg\<close> at index \<open>nonce\<close> in \<open>subnet.top_down_msgs\<close>,
  increment \<open>subnet.nonce\<close>. Fails if \<open>nonce == MAX_NONCE\<close>".
\<close>

definition addFundMsg :: "Runtime \<Rightarrow> int \<Rightarrow> Subnet \<Rightarrow> exitcode + Subnet" where
  "addFundMsg rt value sh =
     (if Subnet.Nonce sh = MaxNonce then Inl ErrIllegalState
      else (let msg = \<lparr>Message.To = Caller rt, Message.Value = value,
                        Message.Nonce = Subnet.Nonce sh\<rparr>
            in Inr (sh\<lparr>TopDownMsgs := (TopDownMsgs sh)(Subnet.Nonce sh \<mapsto> msg),
                       Subnet.Nonce := Subnet.Nonce sh + 1\<rparr>)))"

text \<open>
  \<open>SubnetCoordActor.Fund\<close>; the parameter is the \<open>ID\<close> of \<open>SubnetIDParam\<close>. The method
  returns no value.
\<close>

definition Fund :: "Runtime \<Rightarrow> SubnetID \<Rightarrow> SCAState \<Rightarrow> exitcode + SCAState \<times> unit" where
  "Fund rt params st =
     (case ValidateImmediateCallerType rt [AccountActorCodeID] of
        Inl code \<Rightarrow> Inl code
      | Inr _ \<Rightarrow>
          (let value = ValueReceived rt
           in if value \<le> 0 then Inl ErrIllegalArgument
              else (case GetSubnet st (AsStore rt) params of
                      Inl err \<Rightarrow> Inl ErrIllegalState
                    | Inr None \<Rightarrow> Inl ErrIllegalArgument
                    | Inr (Some sh) \<Rightarrow>
                        (case freezeFunds rt (Caller rt) value sh of
                           Inl code \<Rightarrow> Inl code
                         | Inr sh1 \<Rightarrow>
                             (case addFundMsg rt value sh1 of
                                Inl code \<Rightarrow> Inl code
                              | Inr sh2 \<Rightarrow>
                                  (case flushSubnet rt sh2 st of
                                     Inl code \<Rightarrow> Inl code
                                   | Inr st' \<Rightarrow> Inr (st', ())))))))"

section \<open>Subnet coordinator actor: committing a child checkpoint\<close>

text \<open>
  What \<open>CommitChildCheckpoint\<close> takes from outside the sources, as parameters:
  \<^item> \<open>ComputeLink\<close>, the link system of go-ipld-prime (see \<open>Cid\<close>);
  \<open>UnmarshalBinary\<close>, the DAG-CBOR decoder of a checkpoint;
  \<^item> \<open>EmptyCheckpoint\<close> and \<open>NoPreviousCheck\<close>, two variables of the later schema package;
  \<^item> \<open>WindowEpoch\<close> of package \<open>types\<close>, from the current epoch and the period to the
    epoch of the window being filled;
  \<^item> \<open>storeDownTopMsgMeta\<close> and \<open>aggChildMsgMeta\<close>, the two methods of \<open>SCAState\<close> that
    \<open>applyCheckMsgs\<close> calls: each returns the state (and the window checkpoint) updated,
    or aborts. The second one receives the Go map from destination to metas.
\<close>

record Deps =
  ComputeLink :: "SCACheckpoint \<Rightarrow> go_error + cid"
  UnmarshalBinary :: "bytes \<Rightarrow> go_error + SCACheckpoint"
  EmptyCheckpoint :: SCACheckpoint
  NoPreviousCheck :: cid
  WindowEpoch :: "int \<Rightarrow> int \<Rightarrow> int"
  storeDownTopMsgMeta :: "Runtime \<Rightarrow> CrossMsgMeta \<Rightarrow> SCAState \<Rightarrow> exitcode + SCAState"
  aggChildMsgMeta ::
    "Runtime \<Rightarrow> SCACheckpoint \<Rightarrow> (SubnetID \<rightharpoonup> CrossMsgMeta list) \<Rightarrow> SCAState
       \<Rightarrow> exitcode + SCAState \<times> SCACheckpoint"

text \<open>
  Modelled from the spec: the methods \<open>IsEmpty\<close>, \<open>PreviousCheck\<close>, \<open>CrossMsgs\<close> and
  \<open>AddChild\<close> of the later \<open>Checkpoint\<close> are not among the sources. The spec: a
  checkpoint is the empty one when it equals the canonical empty checkpoint, equality
  being equality of CIDs; \<open>previous_check\<close> gives the link to the previous checkpoint;
  the cross-messages are the metas of the optional list; \<open>add_child(other)\<close> is to
  "append \<open>other\<close>'s CID under \<open>children[source=other.source]\<close>; create the ChildCheck
  entry if absent. If an entry for that source already exists, append to its \<open>checks\<close>".
\<close>

definition IsEmpty :: "Deps \<Rightarrow> SCACheckpoint \<Rightarrow> go_error + bool" where
  "IsEmpty deps c = Equals (ComputeLink deps) c (EmptyCheckpoint deps)"

definition PreviousCheck :: "SCACheckpoint \<Rightarrow> cid" where
  "PreviousCheck c = CheckData.PrevCheckpoint (Data c)"

definition CrossMsgs :: "SCACheckpoint \<Rightarrow> CrossMsgMeta list" where
  "CrossMsgs c = (case XShardMsg (Data c) of None \<Rightarrow> [] | Some l \<Rightarrow> Metas l)"

fun addCheck :: "SubnetID \<Rightarrow> cid \<Rightarrow> ChildChecks list \<Rightarrow> ChildChecks list" where
  "addCheck source chcid [] = [ChildChecks source [chcid]]"
| "addCheck source chcid (e # es) =
     (if CCSource e = source then ChildChecks (CCSource e) (Checks e @ [chcid]) # es
      else e # addCheck source chcid es)"

definition AddChild :: "Deps \<Rightarrow> SCACheckpoint \<Rightarrow> SCACheckpoint \<Rightarrow> go_error + SCACheckpoint" where
  "AddChild deps c other =
     (case Cid (ComputeLink deps) other of
        Inl err \<Rightarrow> Inl err
      | Inr chcid \<Rightarrow>
          Inr (c\<lparr>Data := (Data c)\<lparr>Childs := addCheck (Source (Data other)) chcid (Childs (Data c))\<rparr>\<rparr>))"

text \<open>\<open>SCAState.GetCheckpoint\<close> with \<open>getCheckpoint\<close>, and \<open>flushCheckpoint\<close>.\<close>

definition GetCheckpoint :: "SCAState \<Rightarrow> Store \<Rightarrow> int \<Rightarrow> go_error + SCACheckpoint option" where
  "GetCheckpoint st s epoch =
     (if Healthy s then Inr (Checkpoints st (word_of_int epoch))
      else Inl (Errorf ''failed to load checkpoint''))"

definition flushCheckpoint :: "Runtime \<Rightarrow> SCACheckpoint \<Rightarrow> SCAState \<Rightarrow> exitcode + SCAState" where
  "flushCheckpoint rt ch st =
     (if Healthy (AsStore rt)
      then Inr (st\<lparr>Checkpoints := (Checkpoints st)(word_of_int (Epoch (Data ch)) \<mapsto> ch)\<rparr>)
      else Inl ErrIllegalState)"

text \<open>
  \<open>SCAState.CurrWindowCheckpoint\<close> and \<open>currWindowCheckpoint\<close>. The template of a
  window not yet stored is the raw checkpoint of the network at the window's epoch, with
  no previous checkpoint and no cross-messages.
\<close>

definition CurrWindowCheckpoint ::
  "Deps \<Rightarrow> SCAState \<Rightarrow> Store \<Rightarrow> int \<Rightarrow> go_error + SCACheckpoint" where
  "CurrWindowCheckpoint deps st store epoch =
     (let chEpoch = WindowEpoch deps epoch (CheckPeriod st)
      in case GetCheckpoint st store chEpoch of
           Inl err \<Rightarrow> Inl err
         | Inr None \<Rightarrow> Inr (NewRawCheckpoint (NetworkName st) chEpoch (NoPreviousCheck deps) None)
         | Inr (Some ch) \<Rightarrow> Inr ch)"

definition currWindowCheckpoint :: "Deps \<Rightarrow> Runtime \<Rightarrow> SCAState \<Rightarrow> exitcode + SCACheckpoint" where
  "currWindowCheckpoint deps rt st =
     (case CurrWindowCheckpoint deps st (AsStore rt) (CurrEpoch rt) of
        Inl err \<Rightarrow> Inl ErrIllegalState
      | Inr ch \<Rightarrow> Inr ch)"

text \<open>
  \<open>SCAState.applyCheckMsgs\<close>. The loop threads the state through
  \<open>storeDownTopMsgMeta\<close> and collects the other metas by destination in \<open>aux\<close>.
\<close>

fun applyCheckMsgs_loop ::
  "Deps \<Rightarrow> Runtime \<Rightarrow> CrossMsgMeta list \<Rightarrow> SCAState \<Rightarrow> (SubnetID \<rightharpoonup> CrossMsgMeta list)
     \<Rightarrow> exitcode + SCAState \<times> (SubnetID \<rightharpoonup> CrossMsgMeta list)" where
  "applyCheckMsgs_loop deps rt [] st aux = Inr (st, aux)"
| "applyCheckMsgs_loop deps rt (mm # rest) st aux =
     (if CrossMsgMeta.To mm = NetworkName st
      then (case storeDownTopMsgMeta deps rt mm st of
              Inl code \<Rightarrow> Inl code
            | Inr st' \<Rightarrow> applyCheckMsgs_loop deps rt rest st' aux)
      else (case aux (CrossMsgMeta.To mm) of
              None \<Rightarrow>
                applyCheckMsgs_loop deps rt rest st (aux(CrossMsgMeta.To mm \<mapsto> [mm]))
            | Some mms \<Rightarrow>
                applyCheckMsgs_loop deps rt rest st (aux(CrossMsgMeta.To mm \<mapsto> mms @ [mm]))))"

definition applyCheckMsgs ::
  "Deps \<Rightarrow> Runtime \<Rightarrow> SCACheckpoint \<Rightarrow> SCACheckpoint \<Rightarrow> SCAState
     \<Rightarrow> exitcode + SCAState \<times> SCACheckpoint" where
  "applyCheckMsgs deps rt windowCh childCh st =
     (case applyCheckMsgs_loop deps rt (CrossMsgs childCh) st Map.empty of
        Inl code \<Rightarrow> Inl code
      | Inr (st', aux) \<Rightarrow> aggChildMsgMeta deps rt windowCh aux st')"

text \<open>
  The statements with which both branches of \<open>CommitChildCheckpoint\<close> end: apply the
  cross-messages, append the child, flush the window checkpoint, record the commit as
  the child's previous checkpoint, flush the subnet.
\<close>

definition commitChild ::
  "Deps \<Rightarrow> Runtime \<Rightarrow> SCAState \<Rightarrow> Subnet \<Rightarrow> SCACheckpoint \<Rightarrow> SCACheckpoint
     \<Rightarrow> exitcode + SCAState \<times> unit" where
  "commitChild deps rt st sh ch commit =
     (case applyCheckMsgs deps rt ch commit st of
        Inl code \<Rightarrow> Inl code
      | Inr (st1, ch1) \<Rightarrow>
          (case AddChild deps ch1 commit of
             Inl err \<Rightarrow> Inl ErrIllegalState
           | Inr ch2 \<Rightarrow>
               (case flushCheckpoint rt ch2 st1 of
                  Inl code \<Rightarrow> Inl code
                | Inr st2 \<Rightarrow>
                    (case flushSubnet rt (sh\<lparr>Subnet.PrevCheckpoint := commit\<rparr>) st2 of
                       Inl code \<Rightarrow> Inl code
                     | Inr st3 \<Rightarrow> Inr (st3, ())))))"

text \<open>
  \<open>SubnetCoordActor.CommitChildCheckpoint\<close>; the parameter is the \<open>Checkpoint\<close> field of
  \<open>CheckpointParams\<close>. The errors of \<open>IsEmpty\<close> and \<open>PreviousCheck\<close> are dropped by the
  source: a failed \<open>IsEmpty\<close> reads as "not empty".
\<close>

definition CommitChildCheckpoint ::
  "Deps \<Rightarrow> Runtime \<Rightarrow> bytes \<Rightarrow> SCAState \<Rightarrow> exitcode + SCAState \<times> unit" where
  "CommitChildCheckpoint deps rt params st =
     (case ValidateImmediateCallerType rt [SubnetActorCodeID] of
        Inl code \<Rightarrow> Inl code
      | Inr _ \<Rightarrow>
     (case UnmarshalBinary deps params of
        Inl err \<Rightarrow> Inl ErrIllegalArgument
      | Inr commit \<Rightarrow>
     (let subnetActorAddr = Caller rt
      in case Actor (Source (Data commit)) of
           Inl err \<Rightarrow> Inl ErrIllegalArgument
         | Inr source \<Rightarrow>
     if source \<noteq> subnetActorAddr then Inl ErrIllegalArgument
     else (let shid = NewSubnetID (NetworkName st) subnetActorAddr
           in case GetSubnet st (AsStore rt) shid of
                Inl err \<Rightarrow> Inl ErrIllegalState
              | Inr None \<Rightarrow> Inl ErrIllegalArgument
              | Inr (Some sh) \<Rightarrow>
     if Subnet.Status sh \<noteq> Active then Inl ErrIllegalState
     else (case currWindowCheckpoint deps rt st of
             Inl code \<Rightarrow> Inl code
           | Inr ch \<Rightarrow>
     (let prevCom = Subnet.PrevCheckpoint sh;
          empty = (case IsEmpty deps prevCom of Inl err \<Rightarrow> False | Inr b \<Rightarrow> b)
      in if empty then commitChild deps rt st sh ch commit
         else if Epoch (Data prevCom) > Epoch (Data commit) then Inl ErrIllegalArgument
         else (case Cid (ComputeLink deps) prevCom of
                 Inl err \<Rightarrow> Inl ErrIllegalState
               | Inr prevCid \<Rightarrow>
                   if prevCid \<noteq> PreviousCheck commit then Inl ErrIllegalArgument
                   else commitChild deps rt st sh ch commit)))))))"

section \<open>Properties of the checkpoint schema\<close>

subsection \<open>Identity of a checkpoint\<close>

text \<open>
  Claim C2. Two checkpoints with equal \<open>Data\<close> get the same CID whatever their
  signatures are; changing only the signature of a checkpoint leaves its CID unchanged;
  and \<open>Equals\<close> answers true exactly when both CIDs are computed and are the same
  (it answers false exactly when both are computed and differ). This holds for every
  link system \<open>L\<close>.
\<close>

theorem Cid_ignores_Signature:
  "(Data c1 = Data c2 \<longrightarrow> Cid L c1 = Cid L c2)
   \<and> Cid L (c\<lparr>Signature := s\<rparr>) = Cid L c
   \<and> ((Equals L c1 c2 = Inr True) = (\<exists>k. Cid L c1 = Inr k \<and> Cid L c2 = Inr k))
   \<and> ((Equals L c1 c2 = Inr False) =
        (\<exists>k1 k2. Cid L c1 = Inr k1 \<and> Cid L c2 = Inr k2 \<and> k1 \<noteq> k2))"
  by (auto simp: Cid_def Equals_def split: sum.splits)

text \<open>
  The theorem at two checkpoints of subnet \<open>t01\<close> that differ in their signatures only,
  under a link system that reads the epoch of the node: their CIDs agree.
\<close>

theorem Cid_ignores_Signature_witness:
  "Cid (\<lambda>n. Inr (CidStr (if Epoch (Data n) = 10 then ''ten'' else ''other'')))
       ((NewRawCheckpoint [''t01''] 10 Undef (None :: MsgTreeList option)
           :: (ChildCheck, MsgTreeList) Checkpoint)\<lparr>Signature := [1, 2]\<rparr>)
   = Cid (\<lambda>n. Inr (CidStr (if Epoch (Data n) = 10 then ''ten'' else ''other'')))
       ((NewRawCheckpoint [''t01''] 10 Undef None
           :: (ChildCheck, MsgTreeList) Checkpoint)\<lparr>Signature := [3]\<rparr>)"
  using Cid_ignores_Signature
    [of "(NewRawCheckpoint [''t01''] 10 Undef (None :: MsgTreeList option)
           :: (ChildCheck, MsgTreeList) Checkpoint)\<lparr>Signature := [1, 2]\<rparr>"
        "(NewRawCheckpoint [''t01''] 10 Undef (None :: MsgTreeList option)
           :: (ChildCheck, MsgTreeList) Checkpoint)\<lparr>Signature := [3]\<rparr>"
        "\<lambda>n. Inr (CidStr (if Epoch (Data n) = 10 then ''ten'' else ''other''))"]
  by (simp add: NewRawCheckpoint_def)

subsection \<open>Adding child checks\<close>

lemma hasChild_from_takeWhile:
  "hasChild_from i xs child =
     (let n = length (takeWhile (\<lambda>e. ChildSource e \<noteq> ChildSource child) xs)
      in if n < length xs then i + int n else -1)"
  by (induction xs arbitrary: i) (auto simp: Let_def)

lemma hasChild_takeWhile:
  "hasChild c child =
     (let n = length (takeWhile (\<lambda>e. ChildSource e \<noteq> ChildSource child) (Childs (Data c)))
      in if n < length (Childs (Data c)) then int n else -1)"
  by (simp add: hasChild_def hasChild_from_takeWhile Let_def)

lemma takeWhile_shorter: "(length (takeWhile P xs) < length xs) = (\<exists>e \<in> set xs. \<not> P e)"
  by (induction xs) auto

lemma hasChild_absent:
  "(hasChild c child < 0) = (\<forall>e \<in> set (Childs (Data c)). ChildSource e \<noteq> ChildSource child)"
  by (auto simp add: hasChild_takeWhile Let_def takeWhile_shorter)

lemma hasChild_found:
  assumes "0 \<le> hasChild c child"
  shows "nat (hasChild c child) < length (Childs (Data c))"
    and "ChildSource (Childs (Data c) ! nat (hasChild c child)) = ChildSource child"
    and "\<forall>k < nat (hasChild c child). ChildSource (Childs (Data c) ! k) \<noteq> ChildSource child"
proof -
  let ?P = "\<lambda>e. ChildSource e \<noteq> ChildSource child"
  let ?n = "length (takeWhile ?P (Childs (Data c)))"
  from assms have n: "?n < length (Childs (Data c))" and h: "hasChild c child = int ?n"
    by (auto simp: hasChild_takeWhile Let_def split: if_splits)
  show "nat (hasChild c child) < length (Childs (Data c))" using n h by simp
  show "ChildSource (Childs (Data c) ! nat (hasChild c child)) = ChildSource child"
    using nth_length_takeWhile [OF n] h by simp
  show "\<forall>k < nat (hasChild c child). ChildSource (Childs (Data c) ! k) \<noteq> ChildSource child"
  proof (intro allI impI)
    fix k assume "k < nat (hasChild c child)"
    then have k: "k < ?n" using h by simp
    then have "takeWhile ?P (Childs (Data c)) ! k \<in> set (takeWhile ?P (Childs (Data c)))"
      by simp
    then have "?P (takeWhile ?P (Childs (Data c)) ! k)" by (rule set_takeWhileD [THEN conjunct2])
    then show "ChildSource (Childs (Data c) ! k) \<noteq> ChildSource child"
      using takeWhile_nth [OF k] by simp
  qed
qed

lemma AddChildCheck_Childs:
  "Childs (Data (AddChildCheck c ch)) =
     (if 0 \<le> hasChild c ch then (Childs (Data c))[nat (hasChild c ch) := ch]
      else Childs (Data c)) @ [ch]"
  by (simp add: AddChildCheck_def Let_def)

lemma AddChildChecks_snoc:
  "AddChildChecks c (chs @ [ch]) = AddChildCheck (AddChildChecks c chs) ch"
  by (induction chs arbitrary: c) simp_all

lemma AddChildCheck_frame:
  "(Data (AddChildCheck c ch))\<lparr>Childs := Childs (Data c)\<rparr> = Data c"
  "Signature (AddChildCheck c ch) = Signature c"
  by (simp_all add: AddChildCheck_def Let_def)

lemma AddChildChecks_frame:
  "(Data (AddChildChecks c chs))\<lparr>Childs := Childs (Data c)\<rparr> = Data c
   \<and> Signature (AddChildChecks c chs) = Signature c"
proof (induction chs arbitrary: c)
  case Nil
  then show ?case by simp
next
  case (Cons ch chs)
  have "(Data (AddChildChecks (AddChildCheck c ch) chs))\<lparr>Childs := Childs (Data c)\<rparr>
      = ((Data (AddChildChecks (AddChildCheck c ch) chs))
            \<lparr>Childs := Childs (Data (AddChildCheck c ch))\<rparr>)\<lparr>Childs := Childs (Data c)\<rparr>"
    by simp
  also have "\<dots> = (Data (AddChildCheck c ch))\<lparr>Childs := Childs (Data c)\<rparr>"
    using Cons.IH [of "AddChildCheck c ch"] by simp
  also have "\<dots> = Data c" by (rule AddChildCheck_frame)
  finally show ?case using Cons.IH [of "AddChildCheck c ch"] by (simp add: AddChildCheck_frame)
qed

text \<open>
  Claim C4, as the code has it. An entry of \<open>Data.Childs\<close> holds one check, not a list of
  checks. An empty batch changes nothing, and a batch changes nothing of the checkpoint
  but \<open>Data.Childs\<close>. The checks of a batch are treated one after the other: for the
  check \<open>ch\<close> that follows the checks \<open>chs\<close>, \<open>hasChild\<close> is negative exactly when no entry
  has the source of \<open>ch\<close>, and then \<open>ch\<close> is appended as a new entry; otherwise \<open>hasChild\<close>
  is the index of the first entry with that source, and among the entries there were
  that one is overwritten with \<open>ch\<close> and the others stay as they are.
\<close>

theorem AddChildChecks_one_check_per_entry:
  "AddChildChecks c [] = c
   \<and> (Data (AddChildChecks c chs))\<lparr>Childs := Childs (Data c)\<rparr> = Data c
   \<and> Signature (AddChildChecks c chs) = Signature c
   \<and> ((hasChild (AddChildChecks c chs) ch < 0) =
        (\<forall>e \<in> set (Childs (Data (AddChildChecks c chs))). ChildSource e \<noteq> ChildSource ch))
   \<and> (hasChild (AddChildChecks c chs) ch < 0 \<longrightarrow>
        Childs (Data (AddChildChecks c (chs @ [ch]))) =
          Childs (Data (AddChildChecks c chs)) @ [ch])
   \<and> (0 \<le> hasChild (AddChildChecks c chs) ch \<longrightarrow>
        nat (hasChild (AddChildChecks c chs) ch) < length (Childs (Data (AddChildChecks c chs)))
        \<and> ChildSource (Childs (Data (AddChildChecks c chs)) ! nat (hasChild (AddChildChecks c chs) ch))
            = ChildSource ch
        \<and> (\<forall>k < nat (hasChild (AddChildChecks c chs) ch).
              ChildSource (Childs (Data (AddChildChecks c chs)) ! k) \<noteq> ChildSource ch)
        \<and> take (length (Childs (Data (AddChildChecks c chs))))
                (Childs (Data (AddChildChecks c (chs @ [ch])))) =
            (Childs (Data (AddChildChecks c chs)))
              [nat (hasChild (AddChildChecks c chs) ch) := ch])"
proof -
  let ?c' = "AddChildChecks c chs"
  have step: "Childs (Data (AddChildChecks c (chs @ [ch]))) =
      (if 0 \<le> hasChild ?c' ch then (Childs (Data ?c'))[nat (hasChild ?c' ch) := ch]
       else Childs (Data ?c')) @ [ch]"
    by (simp only: AddChildChecks_snoc AddChildCheck_Childs)
  have absent: "hasChild ?c' ch < 0 \<longrightarrow>
      Childs (Data (AddChildChecks c (chs @ [ch]))) = Childs (Data ?c') @ [ch]"
    by (simp add: step)
  have found: "0 \<le> hasChild ?c' ch \<longrightarrow>
        nat (hasChild ?c' ch) < length (Childs (Data ?c'))
        \<and> ChildSource (Childs (Data ?c') ! nat (hasChild ?c' ch)) = ChildSource ch
        \<and> (\<forall>k < nat (hasChild ?c' ch). ChildSource (Childs (Data ?c') ! k) \<noteq> ChildSource ch)
        \<and> take (length (Childs (Data ?c'))) (Childs (Data (AddChildChecks c (chs @ [ch])))) =
            (Childs (Data ?c'))[nat (hasChild ?c' ch) := ch]"
    using hasChild_found [of ?c' ch] by (simp add: step)
  show ?thesis
    using hasChild_absent [of ?c' ch] absent found AddChildChecks_frame [of c chs]
    by simp
qed

text \<open>
  The theorem for a checkpoint of \<open>t01\<close> whose only entry is check \<open>a\<close> of \<open>t01/t05\<close>:
  check \<open>c\<close> of \<open>t01/t07\<close> is appended as a second entry, and check \<open>b\<close> of \<open>t01/t05\<close>,
  coming second in the same batch, takes the place of \<open>a\<close> in the first entry.
\<close>

theorem AddChildChecks_one_check_per_entry_witness:
  "(let c = \<lparr>Data = \<lparr>Source = [''t01''], TipSet = [], Epoch = 10, PrevCheckpoint = Undef,
                      Childs = [ChildCheck [''t01'', ''t05''] (CidStr ''a'')],
                      XShardMsg = (None :: MsgTreeList option)\<rparr>, Signature = []\<rparr>
    in Childs (Data (AddChildChecks c [ChildCheck [''t01'', ''t07''] (CidStr ''c'')])) =
         [ChildCheck [''t01'', ''t05''] (CidStr ''a''), ChildCheck [''t01'', ''t07''] (CidStr ''c'')]
       \<and> take 2 (Childs (Data (AddChildChecks c
             [ChildCheck [''t01'', ''t07''] (CidStr ''c''),
              ChildCheck [''t01'', ''t05''] (CidStr ''b'')]))) =
         [ChildCheck [''t01'', ''t05''] (CidStr ''b''), ChildCheck [''t01'', ''t07''] (CidStr ''c'')])"
proof -
  let ?c = "\<lparr>Data = \<lparr>Source = [''t01''], TipSet = [], Epoch = 10, PrevCheckpoint = Undef,
                      Childs = [ChildCheck [''t01'', ''t05''] (CidStr ''a'')],
                      XShardMsg = (None :: MsgTreeList option)\<rparr>, Signature = []\<rparr>"
  let ?c07 = "ChildCheck [''t01'', ''t07''] (CidStr ''c'')"
  let ?b05 = "ChildCheck [''t01'', ''t05''] (CidStr ''b'')"
  have w1: "Childs (Data (AddChildChecks ?c [?c07])) =
      [ChildCheck [''t01'', ''t05''] (CidStr ''a''), ?c07]"
    using AddChildChecks_one_check_per_entry [of ?c "[]" ?c07]
    by (simp add: hasChild_def)
  have h: "hasChild (AddChildChecks ?c [?c07]) ?b05 = 0"
    using w1 by (simp add: hasChild_def)
  have w2: "take 2 (Childs (Data (AddChildChecks ?c [?c07, ?b05]))) = [?b05, ?c07]"
    using AddChildChecks_one_check_per_entry [of ?c "[?c07]" ?b05] h w1
    by (simp add: numeral_2_eq_2)
  show ?thesis unfolding Let_def using w1 w2 by blast
qed

text \<open>
  Against the claim as the spec words it (the new check joins the checks of the existing
  entry): after adding check \<open>b\<close> of subnet \<open>t01/t05\<close> to a checkpoint whose only entry is
  check \<open>a\<close> of that subnet, every entry of the subnet holds \<open>b\<close> and \<open>a\<close> is recorded
  nowhere.
\<close>

theorem AddChildChecks_existing_source_counterexample:
  "Childs (Data (AddChildChecks
      (\<lparr>Data = \<lparr>Source = [''t01''], TipSet = [], Epoch = 10, PrevCheckpoint = Undef,
               Childs = [ChildCheck [''t01'', ''t05''] (CidStr ''a'')],
               XShardMsg = (None :: MsgTreeList option)\<rparr>, Signature = []\<rparr>)
      [ChildCheck [''t01'', ''t05''] (CidStr ''b'')]))
     = [ChildCheck [''t01'', ''t05''] (CidStr ''b''), ChildCheck [''t01'', ''t05''] (CidStr ''b'')]
   \<and> ChildCheck [''t01'', ''t05''] (CidStr ''a'') \<notin> set (Childs (Data (AddChildChecks
      (\<lparr>Data = \<lparr>Source = [''t01''], TipSet = [], Epoch = 10, PrevCheckpoint = Undef,
               Childs = [ChildCheck [''t01'', ''t05''] (CidStr ''a'')],
               XShardMsg = (None :: MsgTreeList option)\<rparr>, Signature = []\<rparr>)
      [ChildCheck [''t01'', ''t05''] (CidStr ''b'')])))"
  by (simp add: AddChildCheck_def hasChild_def)

section \<open>Properties of the subnet coordinator\<close>

subsection \<open>Construction\<close>

lemma MaxNonce_value: "unat MaxNonce = 2 ^ 64 - 1" "MaxNonce + 1 = 0"
  by (simp_all add: MaxNonce_def unsigned_minus_1_eq_mask mask_eq_exp_minus_1)

text \<open>
  Claim C10. \<open>ConstructSCAState\<close> returns a state exactly when the store works, and in
  the state it returns \<open>AppliedBottomUpNonce\<close> is \<open>MaxNonce\<close>, which is \<open>2^64 - 1\<close>, so that
  the nonce after it in 64-bit arithmetic is 0; \<open>TotalSubnets\<close>, \<open>Nonce\<close>,
  \<open>BottomUpNonce\<close> and \<open>AppliedTopDownNonce\<close> are 0.
\<close>

theorem ConstructSCAState_nonces:
  "((\<exists>st'. ConstructSCAState store params = Inr st') = Healthy store)
   \<and> (ConstructSCAState store params = Inr st \<longrightarrow>
        AppliedBottomUpNonce st = MaxNonce
        \<and> unat MaxNonce = 2 ^ 64 - 1
        \<and> AppliedBottomUpNonce st + 1 = 0
        \<and> TotalSubnets st = 0
        \<and> SCAState.Nonce st = 0
        \<and> BottomUpNonce st = 0
        \<and> AppliedTopDownNonce st = 0)"
  by (auto simp: ConstructSCAState_def StoreEmptyMap_def StoreEmptyArray_def Let_def
        MaxNonce_value split: if_splits)

text \<open>The theorem at a working store, the root network and a period of 5 epochs.\<close>

theorem ConstructSCAState_nonces_witness:
  "ConstructSCAState \<lparr>Healthy = True\<rparr> \<lparr>ConstructorParams.NetworkName = [], CheckpointPeriod = 5\<rparr> =
     Inr \<lparr>NetworkName = [], TotalSubnets = 0, MinStake = 10 ^ 18, Subnets = Map.empty,
          CheckPeriod = 10, Checkpoints = Map.empty, CheckMsgsRegistry = Map.empty,
          SCAState.Nonce = 0, BottomUpNonce = 0, BottomUpMsgsMeta = Map.empty,
          AppliedBottomUpNonce = 18446744073709551615, AppliedTopDownNonce = 0\<rparr>
   \<and> (18446744073709551615 :: 64 word) + 1 = 0"
proof -
  let ?st = "\<lparr>NetworkName = [], TotalSubnets = 0, MinStake = 10 ^ 18, Subnets = Map.empty,
          CheckPeriod = 10, Checkpoints = Map.empty, CheckMsgsRegistry = Map.empty,
          SCAState.Nonce = 0, BottomUpNonce = 0, BottomUpMsgsMeta = Map.empty,
          AppliedBottomUpNonce = 18446744073709551615, AppliedTopDownNonce = 0\<rparr>"
  have h: "ConstructSCAState \<lparr>Healthy = True\<rparr> \<lparr>ConstructorParams.NetworkName = [], CheckpointPeriod = 5\<rparr>
      = Inr ?st"
    by (simp add: ConstructSCAState_def StoreEmptyMap_def StoreEmptyArray_def Let_def
        MinSubnetStake_def MinCheckpointPeriod_def DefaultCheckpointPeriod_def MaxNonce_def)
  show ?thesis
    using h ConstructSCAState_nonces
      [of "\<lparr>Healthy = True\<rparr>" "\<lparr>ConstructorParams.NetworkName = [], CheckpointPeriod = 5\<rparr>" ?st]
    by (simp add: MaxNonce_def)
qed

subsection \<open>Register\<close>

text \<open>
  Claim C7. For a call by a subnet actor, with a working store: \<open>Register\<close> aborts with
  \<open>ErrIllegalArgument\<close> when the ID made of the network name and the caller's address
  is registered already, and when the value received is at most \<open>MinStake\<close> (so exactly
  \<open>MinStake\<close> is refused); otherwise it counts one more subnet, stores under that ID an
  entry with the value as stake, no top-down messages, nonce 0, a circulating supply of
  0, status \<open>Active\<close> and the empty checkpoint as previous checkpoint, and returns the
  ID.
\<close>

theorem Register_checks:
  assumes "CallerCode rt = SubnetActorCodeID" and "Healthy (AsStore rt)"
  shows "(Subnets st (NetworkName st @ [Caller rt]) \<noteq> None \<longrightarrow>
            Register E rt st = Inl ErrIllegalArgument)
       \<and> (ValueReceived rt \<le> MinStake st \<longrightarrow> Register E rt st = Inl ErrIllegalArgument)
       \<and> (Subnets st (NetworkName st @ [Caller rt]) = None \<and> MinStake st < ValueReceived rt \<longrightarrow>
            Register E rt st =
              Inr (st\<lparr>TotalSubnets := TotalSubnets st + 1,
                      Subnets := (Subnets st)(NetworkName st @ [Caller rt] \<mapsto>
                        \<lparr>ID = NetworkName st @ [Caller rt],
                         ParentID = NetworkName st,
                         Stake = ValueReceived rt,
                         TopDownMsgs = Map.empty,
                         Subnet.Nonce = 0,
                         CircSupply = 0,
                         Status = Active,
                         PrevCheckpoint = E\<rparr>)\<rparr>,
                   NetworkName st @ [Caller rt]))"
  using assms
  by (auto simp: Register_def ValidateImmediateCallerType_def NewSubnetID_def GetSubnet_def
        registerSubnet_def StoreEmptyArray_def flushSubnet_def Let_def split: option.splits)

text \<open>
  The theorem for subnet actor \<open>t05\<close> under network \<open>root\<close> with a minimum stake of
  \<open>10^18\<close>: sending exactly the minimum is refused, sending twice the minimum
  registers \<open>root/t05\<close>, and registering it again is refused.
\<close>

theorem Register_checks_witness:
  "(let E = NewRawCheckpoint [] 0 Undef None;
        st = \<lparr>NetworkName = [''root''], TotalSubnets = 0, MinStake = 10 ^ 18,
              Subnets = Map.empty, CheckPeriod = 10, Checkpoints = Map.empty,
              CheckMsgsRegistry = Map.empty, SCAState.Nonce = 0, BottomUpNonce = 0,
              BottomUpMsgsMeta = Map.empty, AppliedBottomUpNonce = MaxNonce,
              AppliedTopDownNonce = 0\<rparr>;
        rt = \<lparr>Caller = ''t05'', CallerCode = SubnetActorCodeID, ValueReceived = 10 ^ 18,
              CurrentBalance = 10 ^ 18, CurrEpoch = 3, AsStore = \<lparr>Healthy = True\<rparr>,
              Send = (\<lambda>a v. True)\<rparr>;
        sh = \<lparr>ID = [''root'', ''t05''], ParentID = [''root''], Stake = 2 * 10 ^ 18,
              TopDownMsgs = Map.empty, Subnet.Nonce = 0, CircSupply = 0, Status = Active,
              PrevCheckpoint = E\<rparr>
    in Register E rt st = Inl ErrIllegalArgument
       \<and> Register E (rt\<lparr>ValueReceived := 2 * 10 ^ 18\<rparr>) st =
           Inr (st\<lparr>TotalSubnets := 1, Subnets := [[''root'', ''t05''] \<mapsto> sh]\<rparr>,
                [''root'', ''t05''])
       \<and> Register E (rt\<lparr>ValueReceived := 2 * 10 ^ 18\<rparr>)
            (st\<lparr>TotalSubnets := 1, Subnets := [[''root'', ''t05''] \<mapsto> sh]\<rparr>) =
           Inl ErrIllegalArgument)"
proof -
  let ?E = "NewRawCheckpoint [] 0 Undef None :: SCACheckpoint"
  let ?st = "\<lparr>NetworkName = [''root''], TotalSubnets = 0, MinStake = 10 ^ 18,
              Subnets = Map.empty, CheckPeriod = 10, Checkpoints = Map.empty,
              CheckMsgsRegistry = Map.empty, SCAState.Nonce = 0, BottomUpNonce = 0,
              BottomUpMsgsMeta = Map.empty, AppliedBottomUpNonce = MaxNonce,
              AppliedTopDownNonce = 0\<rparr>"
  let ?rt = "\<lparr>Caller = ''t05'', CallerCode = SubnetActorCodeID, ValueReceived = 10 ^ 18,
              CurrentBalance = 10 ^ 18, CurrEpoch = 3, AsStore = \<lparr>Healthy = True\<rparr>,
              Send = (\<lambda>a v. True)\<rparr>"
  let ?sh = "\<lparr>ID = [''root'', ''t05''], ParentID = [''root''], Stake = 2 * 10 ^ 18,
              TopDownMsgs = Map.empty, Subnet.Nonce = 0, CircSupply = 0, Status = Active,
              PrevCheckpoint = ?E\<rparr>"
  show ?thesis
    using Register_checks [of ?rt ?st ?E]
      Register_checks [of "?rt\<lparr>ValueReceived := 2 * 10 ^ 18\<rparr>" ?st ?E]
      Register_checks [of "?rt\<lparr>ValueReceived := 2 * 10 ^ 18\<rparr>"
        "?st\<lparr>TotalSubnets := 1, Subnets := [[''root'', ''t05''] \<mapsto> ?sh]\<rparr>" ?E]
    by (simp add: Let_def)
qed

subsection \<open>Kill\<close>

text \<open>
  Claim C6. For a call by the subnet actor of a registered subnet, with a working store
  and a balance of the coordinator that covers the stake of the subnet (the test on the
  balance comes first in \<open>Kill\<close>, as a sanity check; the coordinator holds the stakes
  and the circulating supplies of its subnets):
  \<^item> when the circulating supply is positive \<open>Kill\<close> aborts with \<open>ErrForbidden\<close> and the
    state is unchanged;
  \<^item> when the circulating supply is zero and the transfer succeeds, the entry is removed
    from the registry and the whole stake is sent to the caller;
  \<^item> when the circulating supply is zero and the transfer fails, \<open>Kill\<close> aborts with
    \<open>ErrIllegalState\<close> and the state is unchanged.
\<close>

theorem Kill_checks:
  assumes "CallerCode rt = SubnetActorCodeID" and "Healthy (AsStore rt)"
    and "Subnets st (NetworkName st @ [Caller rt]) = Some sh"
    and "Stake sh \<le> CurrentBalance rt"
  shows "(0 < CircSupply sh \<longrightarrow>
            Kill rt st = Inl ErrForbidden \<and> StateAfter st (Kill rt st) = st)
       \<and> (CircSupply sh = 0 \<and> Send rt (Caller rt) (Stake sh) \<longrightarrow>
            Kill rt st =
              Inr (st\<lparr>Subnets := (Subnets st)(NetworkName st @ [Caller rt] := None)\<rparr>,
                   (Caller rt, Stake sh)))
       \<and> (CircSupply sh = 0 \<and> \<not> Send rt (Caller rt) (Stake sh) \<longrightarrow>
            Kill rt st = Inl ErrIllegalState \<and> StateAfter st (Kill rt st) = st)"
  using assms
  by (auto simp: Kill_def ValidateImmediateCallerType_def NewSubnetID_def GetSubnet_def
        StateAfter_def Let_def)

text \<open>
  The theorem for subnet \<open>root/t05\<close> with a stake of 30: refused with a circulating
  supply of 1 under a balance of 31; removed and paid 30 with a circulating supply of 0
  under a balance of 30; aborted when the transfer fails.
\<close>

theorem Kill_checks_witness:
  "(let E = NewRawCheckpoint [] 0 Undef None;
        sh = \<lparr>ID = [''root'', ''t05''], ParentID = [''root''], Stake = 30,
              TopDownMsgs = Map.empty, Subnet.Nonce = 0, CircSupply = 1, Status = Active,
              PrevCheckpoint = E\<rparr>;
        st = \<lparr>NetworkName = [''root''], TotalSubnets = 1, MinStake = 10,
              Subnets = [[''root'', ''t05''] \<mapsto> sh], CheckPeriod = 10,
              Checkpoints = Map.empty, CheckMsgsRegistry = Map.empty, SCAState.Nonce = 0,
              BottomUpNonce = 0, BottomUpMsgsMeta = Map.empty,
              AppliedBottomUpNonce = MaxNonce, AppliedTopDownNonce = 0\<rparr>;
        rt = \<lparr>Caller = ''t05'', CallerCode = SubnetActorCodeID, ValueReceived = 0,
              CurrentBalance = 31, CurrEpoch = 3, AsStore = \<lparr>Healthy = True\<rparr>,
              Send = (\<lambda>a v. True)\<rparr>
    in Kill rt st = Inl ErrForbidden
       \<and> StateAfter st (Kill rt st) = st
       \<and> Kill (rt\<lparr>CurrentBalance := 30\<rparr>)
            (st\<lparr>Subnets := [[''root'', ''t05''] \<mapsto> sh\<lparr>CircSupply := 0\<rparr>]\<rparr>) =
           Inr (st\<lparr>Subnets := Map.empty\<rparr>, (''t05'', 30))
       \<and> Kill (rt\<lparr>Send := (\<lambda>a v. False)\<rparr>)
            (st\<lparr>Subnets := [[''root'', ''t05''] \<mapsto> sh\<lparr>CircSupply := 0\<rparr>]\<rparr>) =
           Inl ErrIllegalState)"
proof -
  let ?E = "NewRawCheckpoint [] 0 Undef None :: SCACheckpoint"
  let ?sh = "\<lparr>ID = [''root'', ''t05''], ParentID = [''root''], Stake = 30,
              TopDownMsgs = Map.empty, Subnet.Nonce = 0, CircSupply = 1, Status = Active,
              PrevCheckpoint = ?E\<rparr>"
  let ?st = "\<lparr>NetworkName = [''root''], TotalSubnets = 1, MinStake = 10,
              Subnets = [[''root'', ''t05''] \<mapsto> ?sh], CheckPeriod = 10,
              Checkpoints = Map.empty, CheckMsgsRegistry = Map.empty, SCAState.Nonce = 0,
              BottomUpNonce = 0, BottomUpMsgsMeta = Map.empty,
              AppliedBottomUpNonce = MaxNonce, AppliedTopDownNonce = 0\<rparr>"
  let ?rt = "\<lparr>Caller = ''t05'', CallerCode = SubnetActorCodeID, ValueReceived = 0,
              CurrentBalance = 31, CurrEpoch = 3, AsStore = \<lparr>Healthy = True\<rparr>,
              Send = (\<lambda>a v. True)\<rparr>"
  show ?thesis
    using Kill_checks [of ?rt ?st ?sh]
      Kill_checks [of "?rt\<lparr>CurrentBalance := 30\<rparr>"
        "?st\<lparr>Subnets := [[''root'', ''t05''] \<mapsto> ?sh\<lparr>CircSupply := 0\<rparr>]\<rparr>"
        "?sh\<lparr>CircSupply := 0\<rparr>"]
      Kill_checks [of "?rt\<lparr>Send := (\<lambda>a v. False)\<rparr>"
        "?st\<lparr>Subnets := [[''root'', ''t05''] \<mapsto> ?sh\<lparr>CircSupply := 0\<rparr>]\<rparr>"
        "?sh\<lparr>CircSupply := 0\<rparr>"]
    by (simp add: Let_def StateAfter_def)
qed

subsection \<open>Fund\<close>

text \<open>
  Claim C5. \<open>Fund\<close> succeeds only for a caller that is an account actor, a value received
  that is positive and a target subnet that is registered and \<open>Active\<close>; on success the
  entry stored for the subnet is the old one with the circulating supply raised by
  exactly the value received, a message carrying that value to the caller stored at the
  subnet's nonce, and the nonce advanced by one. \<open>Fund\<close> aborts with \<open>SysErrForbidden\<close>
  for any other caller and with \<open>ErrIllegalArgument\<close> for a value that is not positive;
  with a working store it aborts with \<open>ErrIllegalArgument\<close> when the target is not
  registered, and aborts leaving the state unchanged when the target is not \<open>Active\<close>.
  With a working store it does succeed for an \<open>Active\<close> target whose nonce is not
  \<open>MaxNonce\<close>.
\<close>

theorem Fund_effects:
  "(Fund rt sid st = Inr r \<longrightarrow>
       CallerCode rt = AccountActorCodeID \<and> 0 < ValueReceived rt
       \<and> (\<exists>sh. Subnets st sid = Some sh \<and> Subnet.Status sh = Active
             \<and> r = (st\<lparr>Subnets := (Subnets st)(ID sh \<mapsto>
                        sh\<lparr>CircSupply := CircSupply sh + ValueReceived rt,
                           TopDownMsgs := (TopDownMsgs sh)(Subnet.Nonce sh \<mapsto>
                             \<lparr>Message.To = Caller rt, Message.Value = ValueReceived rt,
                              Message.Nonce = Subnet.Nonce sh\<rparr>),
                           Subnet.Nonce := Subnet.Nonce sh + 1\<rparr>)\<rparr>, ())))
   \<and> (CallerCode rt \<noteq> AccountActorCodeID \<longrightarrow> Fund rt sid st = Inl SysErrForbidden)
   \<and> (CallerCode rt = AccountActorCodeID \<and> ValueReceived rt \<le> 0 \<longrightarrow>
        Fund rt sid st = Inl ErrIllegalArgument)
   \<and> (CallerCode rt = AccountActorCodeID \<and> 0 < ValueReceived rt \<and> Healthy (AsStore rt)
        \<and> Subnets st sid = None \<longrightarrow>
        Fund rt sid st = Inl ErrIllegalArgument)
   \<and> (CallerCode rt = AccountActorCodeID \<and> 0 < ValueReceived rt \<and> Healthy (AsStore rt)
        \<and> Subnets st sid = Some sh \<and> Subnet.Status sh \<noteq> Active \<longrightarrow>
        isl (Fund rt sid st) \<and> StateAfter st (Fund rt sid st) = st)
   \<and> (CallerCode rt = AccountActorCodeID \<and> 0 < ValueReceived rt \<and> Healthy (AsStore rt)
        \<and> Subnets st sid = Some sh \<and> Subnet.Status sh = Active
        \<and> Subnet.Nonce sh \<noteq> MaxNonce \<longrightarrow>
        \<not> isl (Fund rt sid st))"
proof -
  have only_if: "Fund rt sid st = Inr r \<longrightarrow>
       CallerCode rt = AccountActorCodeID \<and> 0 < ValueReceived rt
       \<and> (\<exists>sh. Subnets st sid = Some sh \<and> Subnet.Status sh = Active
             \<and> r = (st\<lparr>Subnets := (Subnets st)(ID sh \<mapsto>
                        sh\<lparr>CircSupply := CircSupply sh + ValueReceived rt,
                           TopDownMsgs := (TopDownMsgs sh)(Subnet.Nonce sh \<mapsto>
                             \<lparr>Message.To = Caller rt, Message.Value = ValueReceived rt,
                              Message.Nonce = Subnet.Nonce sh\<rparr>),
                           Subnet.Nonce := Subnet.Nonce sh + 1\<rparr>)\<rparr>, ()))"
    by (auto simp: Fund_def ValidateImmediateCallerType_def GetSubnet_def freezeFunds_def
        addFundMsg_def flushSubnet_def Let_def split: if_splits sum.splits option.splits)
  have rest: "(CallerCode rt \<noteq> AccountActorCodeID \<longrightarrow> Fund rt sid st = Inl SysErrForbidden)
   \<and> (CallerCode rt = AccountActorCodeID \<and> ValueReceived rt \<le> 0 \<longrightarrow>
        Fund rt sid st = Inl ErrIllegalArgument)
   \<and> (CallerCode rt = AccountActorCodeID \<and> 0 < ValueReceived rt \<and> Healthy (AsStore rt)
        \<and> Subnets st sid = None \<longrightarrow>
        Fund rt sid st = Inl ErrIllegalArgument)
   \<and> (CallerCode rt = AccountActorCodeID \<and> 0 < ValueReceived rt \<and> Healthy (AsStore rt)
        \<and> Subnets st sid = Some sh \<and> Subnet.Status sh \<noteq> Active \<longrightarrow>
        isl (Fund rt sid st) \<and> StateAfter st (Fund rt sid st) = st)
   \<and> (CallerCode rt = AccountActorCodeID \<and> 0 < ValueReceived rt \<and> Healthy (AsStore rt)
        \<and> Subnets st sid = Some sh \<and> Subnet.Status sh = Active
        \<and> Subnet.Nonce sh \<noteq> MaxNonce \<longrightarrow>
        \<not> isl (Fund rt sid st))"
    by (auto simp: Fund_def ValidateImmediateCallerType_def GetSubnet_def freezeFunds_def
        addFundMsg_def flushSubnet_def StateAfter_def Let_def)
  show ?thesis using only_if rest by blast
qed

text \<open>
  The theorem for account \<open>t0100\<close> and subnet \<open>root/t05\<close>: a subnet actor as caller is
  refused, a value of 0 is refused, the unregistered \<open>root/t09\<close> is refused, the subnet
  is refused while \<open>Inactive\<close>, and while \<open>Active\<close> a value of 10 raises its circulating
  supply from 0 to 10 and stores one message at nonce 0.
\<close>

theorem Fund_effects_witness:
  "(let sh = \<lparr>ID = [''root'', ''t05''], ParentID = [''root''], Stake = 30,
              TopDownMsgs = Map.empty, Subnet.Nonce = 0, CircSupply = 0, Status = Active,
              PrevCheckpoint = NewRawCheckpoint [] 0 Undef None\<rparr>;
        st = \<lparr>NetworkName = [''root''], TotalSubnets = 1, MinStake = 10,
              Subnets = [[''root'', ''t05''] \<mapsto> sh], CheckPeriod = 10,
              Checkpoints = Map.empty, CheckMsgsRegistry = Map.empty, SCAState.Nonce = 0,
              BottomUpNonce = 0, BottomUpMsgsMeta = Map.empty,
              AppliedBottomUpNonce = MaxNonce, AppliedTopDownNonce = 0\<rparr>;
        stI = st\<lparr>Subnets := [[''root'', ''t05''] \<mapsto> sh\<lparr>Subnet.Status := Inactive\<rparr>]\<rparr>;
        rt = \<lparr>Caller = ''t0100'', CallerCode = AccountActorCodeID, ValueReceived = 10,
              CurrentBalance = 40, CurrEpoch = 3, AsStore = \<lparr>Healthy = True\<rparr>,
              Send = (\<lambda>a v. True)\<rparr>
    in Fund (rt\<lparr>CallerCode := SubnetActorCodeID\<rparr>) [''root'', ''t05''] st = Inl SysErrForbidden
       \<and> Fund (rt\<lparr>ValueReceived := 0\<rparr>) [''root'', ''t05''] st = Inl ErrIllegalArgument
       \<and> Fund rt [''root'', ''t09''] st = Inl ErrIllegalArgument
       \<and> isl (Fund rt [''root'', ''t05''] stI)
       \<and> StateAfter stI (Fund rt [''root'', ''t05''] stI) = stI
       \<and> Fund rt [''root'', ''t05''] st =
           Inr (st\<lparr>Subnets := [[''root'', ''t05''] \<mapsto>
                  sh\<lparr>CircSupply := 10,
                     TopDownMsgs := [0 \<mapsto> \<lparr>Message.To = ''t0100'', Message.Value = 10,
                                           Message.Nonce = 0\<rparr>],
                     Subnet.Nonce := 1\<rparr>]\<rparr>, ()))"
proof -
  let ?sh = "\<lparr>ID = [''root'', ''t05''], ParentID = [''root''], Stake = 30,
              TopDownMsgs = Map.empty, Subnet.Nonce = 0, CircSupply = 0, Status = Active,
              PrevCheckpoint = NewRawCheckpoint [] 0 Undef None :: SCACheckpoint\<rparr>"
  let ?st = "\<lparr>NetworkName = [''root''], TotalSubnets = 1, MinStake = 10,
              Subnets = [[''root'', ''t05''] \<mapsto> ?sh], CheckPeriod = 10,
              Checkpoints = Map.empty, CheckMsgsRegistry = Map.empty, SCAState.Nonce = 0,
              BottomUpNonce = 0, BottomUpMsgsMeta = Map.empty,
              AppliedBottomUpNonce = MaxNonce, AppliedTopDownNonce = 0\<rparr>"
  let ?stI = "?st\<lparr>Subnets := [[''root'', ''t05''] \<mapsto> ?sh\<lparr>Subnet.Status := Inactive\<rparr>]\<rparr>"
  let ?rt = "\<lparr>Caller = ''t0100'', CallerCode = AccountActorCodeID, ValueReceived = 10,
              CurrentBalance = 40, CurrEpoch = 3, AsStore = \<lparr>Healthy = True\<rparr>,
              Send = (\<lambda>a v. True)\<rparr>"
  let ?sid = "[''root'', ''t05'']"
  have w1: "Fund (?rt\<lparr>CallerCode := SubnetActorCodeID\<rparr>) ?sid ?st = Inl SysErrForbidden"
    using Fund_effects [of "?rt\<lparr>CallerCode := SubnetActorCodeID\<rparr>" ?sid ?st _ ?sh] by simp
  have w2: "Fund (?rt\<lparr>ValueReceived := 0\<rparr>) ?sid ?st = Inl ErrIllegalArgument"
    using Fund_effects [of "?rt\<lparr>ValueReceived := 0\<rparr>" ?sid ?st _ ?sh] by simp
  have w3: "Fund ?rt [''root'', ''t09''] ?st = Inl ErrIllegalArgument"
    using Fund_effects [of ?rt "[''root'', ''t09'']" ?st _ ?sh] by simp
  have w4: "isl (Fund ?rt ?sid ?stI) \<and> StateAfter ?stI (Fund ?rt ?sid ?stI) = ?stI"
    using Fund_effects [of ?rt ?sid ?stI _ "?sh\<lparr>Subnet.Status := Inactive\<rparr>"] by simp
  have "\<not> isl (Fund ?rt ?sid ?st)"
    using Fund_effects [of ?rt ?sid ?st _ ?sh] by (simp add: MaxNonce_def)
  then obtain r where r: "Fund ?rt ?sid ?st = Inr r" by (cases "Fund ?rt ?sid ?st") auto
  have w5: "Fund ?rt ?sid ?st =
           Inr (?st\<lparr>Subnets := [?sid \<mapsto>
                  ?sh\<lparr>CircSupply := 10,
                     TopDownMsgs := [0 \<mapsto> \<lparr>Message.To = ''t0100'', Message.Value = 10,
                                           Message.Nonce = 0\<rparr>],
                     Subnet.Nonce := 1\<rparr>]\<rparr>, ())"
    using Fund_effects [of ?rt ?sid ?st r ?sh] r by simp
  show ?thesis unfolding Let_def using w1 w2 w3 w4 w5 by blast
qed

subsection \<open>Committing a child checkpoint\<close>

lemma commitChild_accepts:
  assumes "Healthy (AsStore rt)"
    and "applyCheckMsgs deps rt ch commit st = Inr (st1, ch1)"
    and "Cid (ComputeLink deps) commit = Inr k"
  shows "commitChild deps rt st sh ch commit =
     Inr (st1\<lparr>Checkpoints := (Checkpoints st1)(word_of_int (Epoch (Data ch1)) \<mapsto>
                ch1\<lparr>Data := (Data ch1)\<lparr>Childs :=
                  addCheck (Source (Data commit)) k (Childs (Data ch1))\<rparr>\<rparr>),
              Subnets := (Subnets st1)(ID sh \<mapsto> sh\<lparr>Subnet.PrevCheckpoint := commit\<rparr>)\<rparr>, ())"
  using assms
  by (simp add: commitChild_def AddChild_def flushCheckpoint_def flushSubnet_def)

text \<open>
  Claim C1. Take a call by a subnet actor whose parameter decodes to \<open>commit\<close>, with a
  working store, the caller's subnet registered as \<open>sh\<close> and \<open>Active\<close>, and \<open>ch\<close> the
  checkpoint of the current window.

  When the previous checkpoint of \<open>sh\<close> is not the empty one:
  \<^item> the call succeeds only if the epoch of \<open>commit\<close> is at least the epoch of the
    previous checkpoint and \<open>commit\<close> links to the CID of the previous checkpoint;
  \<^item> an epoch below that of the previous checkpoint aborts with \<open>ErrIllegalArgument\<close>
    and leaves the state unchanged;
  \<^item> a link other than the CID of the previous checkpoint does the same;
  \<^item> when \<open>commit\<close> names the caller as its source and meets both conditions (equal
    epochs included), the call is the commit itself.

  When the previous checkpoint of \<open>sh\<close> is the empty one and \<open>commit\<close> names the caller
  as its source, the call is the commit itself, whatever epoch and link \<open>commit\<close> has.

  The commit itself succeeds whenever the cross-messages are applied without abort and
  the CID of \<open>commit\<close> is computed: it stores the window checkpoint with the CID added
  under the source of \<open>commit\<close>, and records \<open>commit\<close> as the previous checkpoint of the
  subnet.
\<close>

theorem CommitChildCheckpoint_chaining:
  assumes "CallerCode rt = SubnetActorCodeID"
    and "Healthy (AsStore rt)"
    and "UnmarshalBinary deps params = Inr commit"
    and "Subnets st (NetworkName st @ [Caller rt]) = Some sh"
    and "Subnet.Status sh = Active"
    and "currWindowCheckpoint deps rt st = Inr ch"
  shows "(IsEmpty deps (Subnet.PrevCheckpoint sh) \<noteq> Inr True \<longrightarrow>
           (\<forall>r. CommitChildCheckpoint deps rt params st = Inr r \<longrightarrow>
                Epoch (Data (Subnet.PrevCheckpoint sh)) \<le> Epoch (Data commit)
                \<and> Cid (ComputeLink deps) (Subnet.PrevCheckpoint sh) =
                    Inr (CheckData.PrevCheckpoint (Data commit)))
           \<and> (Epoch (Data commit) < Epoch (Data (Subnet.PrevCheckpoint sh)) \<longrightarrow>
                CommitChildCheckpoint deps rt params st = Inl ErrIllegalArgument
                \<and> StateAfter st (CommitChildCheckpoint deps rt params st) = st)
           \<and> (\<forall>k. Cid (ComputeLink deps) (Subnet.PrevCheckpoint sh) = Inr k
                    \<and> k \<noteq> CheckData.PrevCheckpoint (Data commit) \<longrightarrow>
                CommitChildCheckpoint deps rt params st = Inl ErrIllegalArgument
                \<and> StateAfter st (CommitChildCheckpoint deps rt params st) = st)
           \<and> (Actor (Source (Data commit)) = Inr (Caller rt)
               \<and> Epoch (Data (Subnet.PrevCheckpoint sh)) \<le> Epoch (Data commit)
               \<and> Cid (ComputeLink deps) (Subnet.PrevCheckpoint sh) =
                    Inr (CheckData.PrevCheckpoint (Data commit)) \<longrightarrow>
                CommitChildCheckpoint deps rt params st = commitChild deps rt st sh ch commit))
       \<and> (IsEmpty deps (Subnet.PrevCheckpoint sh) = Inr True
           \<and> Actor (Source (Data commit)) = Inr (Caller rt) \<longrightarrow>
             CommitChildCheckpoint deps rt params st = commitChild deps rt st sh ch commit)
       \<and> (\<forall>st1 ch1 k. applyCheckMsgs deps rt ch commit st = Inr (st1, ch1)
             \<and> Cid (ComputeLink deps) commit = Inr k \<longrightarrow>
             commitChild deps rt st sh ch commit =
               Inr (st1\<lparr>Checkpoints := (Checkpoints st1)(word_of_int (Epoch (Data ch1)) \<mapsto>
                          ch1\<lparr>Data := (Data ch1)\<lparr>Childs :=
                            addCheck (Source (Data commit)) k (Childs (Data ch1))\<rparr>\<rparr>),
                        Subnets := (Subnets st1)(ID sh \<mapsto>
                          sh\<lparr>Subnet.PrevCheckpoint := commit\<rparr>)\<rparr>, ()))"
proof -
  let ?prev = "Subnet.PrevCheckpoint sh"
  let ?res = "CommitChildCheckpoint deps rt params st"
  have unfold: "?res =
      (case Actor (Source (Data commit)) of
         Inl err \<Rightarrow> Inl ErrIllegalArgument
       | Inr source \<Rightarrow>
           if source \<noteq> Caller rt then Inl ErrIllegalArgument
           else if (case IsEmpty deps ?prev of Inl err \<Rightarrow> False | Inr b \<Rightarrow> b)
             then commitChild deps rt st sh ch commit
           else if Epoch (Data ?prev) > Epoch (Data commit) then Inl ErrIllegalArgument
           else (case Cid (ComputeLink deps) ?prev of
                   Inl err \<Rightarrow> Inl ErrIllegalState
                 | Inr prevCid \<Rightarrow>
                     if prevCid \<noteq> CheckData.PrevCheckpoint (Data commit)
                     then Inl ErrIllegalArgument
                     else commitChild deps rt st sh ch commit))"
    using assms
    by (simp add: CommitChildCheckpoint_def ValidateImmediateCallerType_def NewSubnetID_def
        GetSubnet_def PreviousCheck_def Let_def split: sum.splits)
  have nonempty: "IsEmpty deps ?prev \<noteq> Inr True \<Longrightarrow>
      (case IsEmpty deps ?prev of Inl err \<Rightarrow> False | Inr b \<Rightarrow> b) = False"
    by (auto split: sum.splits)
  have a1: "IsEmpty deps ?prev \<noteq> Inr True \<Longrightarrow> ?res = Inr r \<Longrightarrow>
      Epoch (Data ?prev) \<le> Epoch (Data commit)
      \<and> Cid (ComputeLink deps) ?prev = Inr (CheckData.PrevCheckpoint (Data commit))" for r
    using nonempty by (auto simp: unfold split: sum.splits if_splits)
  have a2: "IsEmpty deps ?prev \<noteq> Inr True \<Longrightarrow> Epoch (Data commit) < Epoch (Data ?prev) \<Longrightarrow>
      ?res = Inl ErrIllegalArgument"
    using nonempty by (auto simp: unfold split: sum.splits)
  have a3: "IsEmpty deps ?prev \<noteq> Inr True \<Longrightarrow> Cid (ComputeLink deps) ?prev = Inr k \<Longrightarrow>
      k \<noteq> CheckData.PrevCheckpoint (Data commit) \<Longrightarrow> ?res = Inl ErrIllegalArgument" for k
    using nonempty by (auto simp: unfold split: sum.splits)
  have a4: "IsEmpty deps ?prev \<noteq> Inr True \<Longrightarrow> Actor (Source (Data commit)) = Inr (Caller rt) \<Longrightarrow>
      Epoch (Data ?prev) \<le> Epoch (Data commit) \<Longrightarrow>
      Cid (ComputeLink deps) ?prev = Inr (CheckData.PrevCheckpoint (Data commit)) \<Longrightarrow>
      ?res = commitChild deps rt st sh ch commit"
    using nonempty by (auto simp: unfold split: sum.splits)
  have b: "IsEmpty deps ?prev = Inr True \<Longrightarrow> Actor (Source (Data commit)) = Inr (Caller rt) \<Longrightarrow>
      ?res = commitChild deps rt st sh ch commit"
    by (simp add: unfold)
  have aborted: "?res = Inl ErrIllegalArgument \<Longrightarrow> StateAfter st ?res = st"
    by (simp add: StateAfter_def)
  show ?thesis
    using a1 a2 a3 a4 b aborted commitChild_accepts [OF assms(2)]
    by (intro conjI impI allI) blast+
qed

text \<open>
  The theorem for subnet \<open>root/t05\<close>, whose previous checkpoint is the one of epoch 10
  with CID \<open>c10\<close>, at epoch 23 of a network with period 10. A parameter of two bytes
  decodes to the checkpoint with the first byte as epoch that links to \<open>c10\<close> when the
  second byte is 1. Epoch 20 with another link is refused and changes nothing; epoch 5
  with the right link is refused; epoch 10 with the right link is accepted; epoch 20
  with the right link is accepted, becomes the previous checkpoint and is added to the
  window of epoch 20. With the empty checkpoint as previous one, epoch 5 with another
  link is accepted.
\<close>

theorem CommitChildCheckpoint_chaining_witness:
  "(let deps = \<lparr>ComputeLink = (\<lambda>n. Inr (CidStr (if Epoch (Data n) = 10 then ''c10''
                                        else if Epoch (Data n) = 0 then ''c0'' else ''cx''))),
                UnmarshalBinary = (\<lambda>b. if length b = 2
                    then Inr \<lparr>Data = \<lparr>Source = [''root'', ''t05''], TipSet = [],
                                 Epoch = uint (b ! 0),
                                 PrevCheckpoint = CidStr (if b ! 1 = 1 then ''c10'' else []),
                                 Childs = [], XShardMsg = None\<rparr>,
                              Signature = []\<rparr>
                    else Inl (Errorf ''malformed'')),
                EmptyCheckpoint = NewRawCheckpoint [] 0 Undef None,
                NoPreviousCheck = Undef,
                WindowEpoch = (\<lambda>e p. (e div p) * p),
                storeDownTopMsgMeta = (\<lambda>rt mm st. Inr st),
                aggChildMsgMeta = (\<lambda>rt ch aux st. Inr (st, ch))\<rparr>;
        sh = \<lparr>ID = [''root'', ''t05''], ParentID = [''root''], Stake = 30,
              TopDownMsgs = Map.empty, Subnet.Nonce = 0, CircSupply = 0, Status = Active,
              PrevCheckpoint = NewRawCheckpoint [''root'', ''t05''] 10 Undef None\<rparr>;
        st = \<lparr>NetworkName = [''root''], TotalSubnets = 1, MinStake = 10,
              Subnets = [[''root'', ''t05''] \<mapsto> sh], CheckPeriod = 10,
              Checkpoints = Map.empty, CheckMsgsRegistry = Map.empty, SCAState.Nonce = 0,
              BottomUpNonce = 0, BottomUpMsgsMeta = Map.empty,
              AppliedBottomUpNonce = MaxNonce, AppliedTopDownNonce = 0\<rparr>;
        stE = st\<lparr>Subnets := [[''root'', ''t05''] \<mapsto>
                sh\<lparr>Subnet.PrevCheckpoint := NewRawCheckpoint [] 0 Undef None\<rparr>]\<rparr>;
        rt = \<lparr>Caller = ''t05'', CallerCode = SubnetActorCodeID, ValueReceived = 0,
              CurrentBalance = 30, CurrEpoch = 23, AsStore = \<lparr>Healthy = True\<rparr>,
              Send = (\<lambda>a v. True)\<rparr>
    in CommitChildCheckpoint deps rt [20, 0] st = Inl ErrIllegalArgument
       \<and> StateAfter st (CommitChildCheckpoint deps rt [20, 0] st) = st
       \<and> CommitChildCheckpoint deps rt [5, 1] st = Inl ErrIllegalArgument
       \<and> \<not> isl (CommitChildCheckpoint deps rt [10, 1] st)
       \<and> map_option Subnet.PrevCheckpoint
            (Subnets (StateAfter st (CommitChildCheckpoint deps rt [20, 1] st)) [''root'', ''t05''])
           = Some (NewRawCheckpoint [''root'', ''t05''] 20 (CidStr ''c10'') None)
       \<and> map_option (\<lambda>c. Childs (Data c))
            (Checkpoints (StateAfter st (CommitChildCheckpoint deps rt [20, 1] st)) 20)
           = Some [ChildChecks [''root'', ''t05''] [CidStr ''cx'']]
       \<and> \<not> isl (CommitChildCheckpoint deps rt [5, 0] stE))"
proof -
  let ?deps = "\<lparr>ComputeLink = (\<lambda>n. Inr (CidStr (if Epoch (Data n) = 10 then ''c10''
                                        else if Epoch (Data n) = 0 then ''c0'' else ''cx''))),
                UnmarshalBinary = (\<lambda>b. if length b = 2
                    then Inr \<lparr>Data = \<lparr>Source = [''root'', ''t05''], TipSet = [],
                                 Epoch = uint (b ! 0),
                                 PrevCheckpoint = CidStr (if b ! 1 = 1 then ''c10'' else []),
                                 Childs = [], XShardMsg = None\<rparr>,
                              Signature = []\<rparr>
                    else Inl (Errorf ''malformed'')),
                EmptyCheckpoint = NewRawCheckpoint [] 0 Undef None,
                NoPreviousCheck = Undef,
                WindowEpoch = (\<lambda>e p. (e div p) * p),
                storeDownTopMsgMeta = (\<lambda>rt mm st. Inr st),
                aggChildMsgMeta = (\<lambda>rt ch aux st. Inr (st, ch))\<rparr>"
  let ?sh = "\<lparr>ID = [''root'', ''t05''], ParentID = [''root''], Stake = 30,
              TopDownMsgs = Map.empty, Subnet.Nonce = 0, CircSupply = 0, Status = Active,
              PrevCheckpoint = NewRawCheckpoint [''root'', ''t05''] 10 Undef None\<rparr>"
  let ?st = "\<lparr>NetworkName = [''root''], TotalSubnets = 1, MinStake = 10,
              Subnets = [[''root'', ''t05''] \<mapsto> ?sh], CheckPeriod = 10,
              Checkpoints = Map.empty, CheckMsgsRegistry = Map.empty, SCAState.Nonce = 0,
              BottomUpNonce = 0, BottomUpMsgsMeta = Map.empty,
              AppliedBottomUpNonce = MaxNonce, AppliedTopDownNonce = 0\<rparr>"
  let ?shE = "?sh\<lparr>Subnet.PrevCheckpoint := NewRawCheckpoint [] 0 Undef None\<rparr>"
  let ?stE = "?st\<lparr>Subnets := [[''root'', ''t05''] \<mapsto> ?shE]\<rparr>"
  let ?rt = "\<lparr>Caller = ''t05'', CallerCode = SubnetActorCodeID, ValueReceived = 0,
              CurrentBalance = 30, CurrEpoch = 23, AsStore = \<lparr>Healthy = True\<rparr>,
              Send = (\<lambda>a v. True)\<rparr>"
  let ?ch = "NewRawCheckpoint [''root''] 20 Undef None :: SCACheckpoint"
  let ?C = "\<lambda>e p. NewRawCheckpoint [''root'', ''t05''] e p None :: SCACheckpoint"
  note defs = Let_def StateAfter_def IsEmpty_def Equals_def Cid_def NewRawCheckpoint_def
    currWindowCheckpoint_def CurrWindowCheckpoint_def GetCheckpoint_def Actor_def
    applyCheckMsgs_def CrossMsgs_def Undef_def
  have w1: "CommitChildCheckpoint ?deps ?rt [20, 0] ?st = Inl ErrIllegalArgument
      \<and> StateAfter ?st (CommitChildCheckpoint ?deps ?rt [20, 0] ?st) = ?st"
    using CommitChildCheckpoint_chaining [of ?rt ?deps "[20, 0]" "?C 20 Undef" ?st ?sh ?ch]
    by (simp add: defs)
  have w2: "CommitChildCheckpoint ?deps ?rt [5, 1] ?st = Inl ErrIllegalArgument"
    using CommitChildCheckpoint_chaining [of ?rt ?deps "[5, 1]" "?C 5 (CidStr ''c10'')" ?st ?sh ?ch]
    by (simp add: defs)
  have w3: "\<not> isl (CommitChildCheckpoint ?deps ?rt [10, 1] ?st)"
    using CommitChildCheckpoint_chaining [of ?rt ?deps "[10, 1]" "?C 10 (CidStr ''c10'')" ?st ?sh ?ch]
    by (simp add: defs)
  have w4: "map_option Subnet.PrevCheckpoint
            (Subnets (StateAfter ?st (CommitChildCheckpoint ?deps ?rt [20, 1] ?st)) [''root'', ''t05''])
           = Some (NewRawCheckpoint [''root'', ''t05''] 20 (CidStr ''c10'') None)
       \<and> map_option (\<lambda>c. Childs (Data c))
            (Checkpoints (StateAfter ?st (CommitChildCheckpoint ?deps ?rt [20, 1] ?st)) 20)
           = Some [ChildChecks [''root'', ''t05''] [CidStr ''cx'']]"
    using CommitChildCheckpoint_chaining [of ?rt ?deps "[20, 1]" "?C 20 (CidStr ''c10'')" ?st ?sh ?ch]
    by (simp add: defs)
  have w5: "\<not> isl (CommitChildCheckpoint ?deps ?rt [5, 0] ?stE)"
    using CommitChildCheckpoint_chaining [of ?rt ?deps "[5, 0]" "?C 5 Undef" ?stE ?shE ?ch]
    by (simp add: defs)
  show ?thesis
    unfolding Let_def using w1 w2 w3 w4 w5 by blast
qed

section \<open>Properties of the vote tally\<close>

subsection \<open>Rounding to single precision\<close>

lemma ilog2_ge1:
  assumes "1 \<le> x"
  shows "2 powi (ilog2 x) \<le> x" and "x < 2 powi (ilog2 x + 1)"
proof -
  let ?n = "nat \<lfloor>x\<rfloor>"
  let ?k = "floorlog 2 ?n"
  have n: "0 < ?n" using assms by simp
  from floorlog_bounds [OF n, of 2] have b: "(2::nat) ^ (?k - 1) \<le> ?n" "?n < (2::nat) ^ ?k" by simp_all
  have k: "0 < ?k" using n by (subst compute_floorlog) simp
  have e: "ilog2 x = int ?k - 1" using assms by (simp add: ilog2_def)
  have "(2::rat) powi (int ?k - 1) = 2 ^ (?k - 1)"
    using k by (simp add: power_int_def of_nat_diff)
  also have "\<dots> = of_nat (2 ^ (?k - 1))" by simp
  also have "\<dots> \<le> of_nat ?n" using b(1) by (simp only: of_nat_le_iff)
  also have "\<dots> = of_int \<lfloor>x\<rfloor>" using assms by simp
  also have "\<dots> \<le> x" by simp
  finally show "2 powi (ilog2 x) \<le> x" by (simp add: e)
  have "int ?n < int (2 ^ ?k)" using b(2) by (simp only: of_nat_less_iff)
  then have "\<lfloor>x\<rfloor> < 2 ^ ?k" using assms by simp
  then have "x < of_int (2 ^ ?k)" by (simp add: floor_less_iff)
  also have "\<dots> = 2 powi (int ?k)" by (simp add: power_int_def)
  finally show "x < 2 powi (ilog2 x + 1)" by (simp add: e)
qed

lemma ilog2_lt1:
  assumes "0 < x" and "x < 1"
  shows "2 powi (ilog2 x) \<le> x" and "x < 2 powi (ilog2 x + 1)"
proof -
  let ?m = "nat (\<lceil>1 / x\<rceil> - 1)"
  let ?j = "floorlog 2 ?m"
  have y: "1 < 1 / x" using assms by simp
  then have c: "2 \<le> \<lceil>1 / x\<rceil>" by (simp add: le_ceiling_iff)
  then have m: "0 < ?m" by simp
  from floorlog_bounds [OF m, of 2] have b: "(2::nat) ^ (?j - 1) \<le> ?m" "?m < (2::nat) ^ ?j" by simp_all
  have j: "0 < ?j" using m by (subst compute_floorlog) simp
  have e: "ilog2 x = - int ?j" using assms by (simp add: ilog2_def)
  have "int ?m < int (2 ^ ?j)" using b(2) by (simp only: of_nat_less_iff)
  then have "\<lceil>1 / x\<rceil> - 1 < 2 ^ ?j" using c assms(1) by simp
  then have "\<lceil>1 / x\<rceil> \<le> 2 ^ ?j" by simp
  then have "1 / x \<le> of_int (2 ^ ?j)" by (simp add: ceiling_le_iff)
  then have "1 / x \<le> 2 ^ ?j" by simp
  then have "1 \<le> x * 2 ^ ?j" using assms(1) by (simp add: field_simps)
  then have "inverse (2 ^ ?j) \<le> x" by (simp add: field_simps)
  then have "x \<ge> inverse (2 ^ ?j)" .
  also have "inverse ((2::rat) ^ ?j) = 2 powi (- int ?j)"
    by (simp only: power_int_minus power_int_of_nat)
  finally show "2 powi (ilog2 x) \<le> x" by (simp only: e)
  have "int (2 ^ (?j - 1)) \<le> int ?m" using b(1) by (simp only: of_nat_le_iff)
  then have "(2::int) ^ (?j - 1) \<le> \<lceil>1 / x\<rceil> - 1" using c assms(1) by simp
  then have "(2::int) ^ (?j - 1) < \<lceil>1 / x\<rceil>" by simp
  then have "of_int (2 ^ (?j - 1)) < 1 / x" by (simp add: less_ceiling_iff)
  then have "2 ^ (?j - 1) < 1 / x" by simp
  then have "x * 2 ^ (?j - 1) < 1" using assms(1) by (simp add: field_simps)
  then have "x < inverse (2 ^ (?j - 1))" by (simp add: field_simps)
  also have "\<dots> = 2 powi (- int (?j - 1))"
    by (simp only: power_int_minus power_int_of_nat)
  also have "- int (?j - 1) = - int ?j + 1" using j by simp
  finally show "x < 2 powi (ilog2 x + 1)" by (simp add: e)
qed

lemma ilog2_bounds:
  assumes "0 < x"
  shows "2 powi (ilog2 x) \<le> x" and "x < 2 powi (ilog2 x + 1)"
  using assms ilog2_ge1 [of x] ilog2_lt1 [of x] by (cases "1 \<le> x"; simp)+

lemma ilog2_unique:
  assumes "2 powi e \<le> x" and "x < 2 powi (e + 1)"
  shows "ilog2 x = e"
proof -
  have pos: "0 < x" using assms(1) by (smt (verit) zero_less_power_int zero_less_numeral less_le_trans)
  note b = ilog2_bounds [OF pos]
  have "(2::rat) powi e < 2 powi (ilog2 x + 1)" using assms(1) b(2) by simp
  then have 1: "e < ilog2 x + 1"
    using power_int_increasing [of "ilog2 x + 1" e "2::rat"] by (cases "e < ilog2 x + 1") auto
  have "(2::rat) powi (ilog2 x) < 2 powi (e + 1)" using assms(2) b(1) by simp
  then have 2: "ilog2 x < e + 1"
    using power_int_increasing [of "e + 1" "ilog2 x" "2::rat"] by (cases "ilog2 x < e + 1") auto
  from 1 2 show ?thesis by simp
qed

lemma rne_of_int: "rne (of_int k) = k"
  by (simp add: rne_def)

lemma rne_bounds: "\<lfloor>y\<rfloor> \<le> rne y" "rne y \<le> \<lfloor>y\<rfloor> + 1"
  by (simp_all add: rne_def Let_def)

lemma ilog2_nonneg: "1 \<le> x \<Longrightarrow> 0 \<le> ilog2 x"
  by (simp add: ilog2_def) (subst compute_floorlog, simp)

lemma round32_exact:
  assumes "n < 2 ^ 24"
  shows "round32 (of_nat n) = of_nat n"
proof (cases "n = 0")
  case True
  then show ?thesis by (simp add: round32_def)
next
  case False
  let ?x = "of_nat n :: rat"
  let ?e = "ilog2 ?x"
  have x1: "1 \<le> ?x" using False by simp
  have pos: "0 < ?x" using False by simp
  have e0: "0 \<le> ?e" using x1 by (rule ilog2_nonneg)
  have "?x < 2 ^ 24" using assms by (metis of_nat_less_iff of_nat_numeral of_nat_power)
  then have "2 powi ?e < (2::rat) powi 24" using ilog2_bounds(1) [OF pos] by simp
  then have e23: "?e \<le> 23"
    using power_int_increasing [of 24 ?e "2::rat"] by (cases "?e \<le> 23") auto
  define k where "k = nat (23 - ?e)"
  have "?e - 23 = - int k" using e23 by (simp add: k_def)
  then have u: "(2::rat) powi (?e - 23) = inverse (2 ^ k)"
    by (simp only: power_int_minus power_int_of_nat)
  have "?x / (2 powi (?e - 23)) = of_int (int n * 2 ^ k)"
    by (simp add: u field_simps)
  then have "rne (?x / (2 powi (?e - 23))) = int n * 2 ^ k"
    by (simp only: rne_of_int)
  then show ?thesis
    using False by (simp add: round32_def Let_def u)
qed

lemma round32_ge1:
  assumes "1 \<le> x"
  shows "1 \<le> round32 x"
proof -
  let ?e = "ilog2 x"
  let ?u = "(2::rat) powi (?e - 23)"
  have pos: "0 < x" using assms by simp
  have e0: "0 \<le> ?e" using assms by (rule ilog2_nonneg)
  have upos: "0 < ?u" by simp
  have "2 powi ?e = 2 ^ 23 * ?u" by (simp add: power_int_diff)
  then have "2 ^ 23 * ?u \<le> x" using ilog2_bounds(1) [OF pos] by simp
  then have "2 ^ 23 \<le> x / ?u" using upos by (simp add: pos_le_divide_eq)
  then have "of_int (2 ^ 23) \<le> x / ?u" by simp
  then have "2 ^ 23 \<le> \<lfloor>x / ?u\<rfloor>" by (simp only: le_floor_iff)
  then have "2 ^ 23 \<le> rne (x / ?u)" using rne_bounds(1) [of "x / ?u"] by linarith
  then have "(of_int (2 ^ 23) :: rat) \<le> of_int (rne (x / ?u))" by (simp only: of_int_le_iff)
  then have "2 ^ 23 * ?u \<le> of_int (rne (x / ?u)) * ?u" using upos by simp
  moreover have "1 \<le> 2 ^ 23 * ?u"
    using e0 \<open>2 powi ?e = 2 ^ 23 * ?u\<close> one_le_power_int [of "2::rat" ?e] by simp
  ultimately have "1 \<le> of_int (rne (x / ?u)) * ?u" by linarith
  moreover have "round32 x = of_int (rne (x / ?u)) * ?u"
    using pos by (simp add: round32_def Let_def)
  ultimately show ?thesis by simp
qed

lemma round32_lt_half:
  assumes "0 < x" and "x < 1 / 2"
  shows "round32 x \<le> 1 / 2"
proof -
  let ?e = "ilog2 x"
  let ?u = "(2::rat) powi (?e - 23)"
  have upos: "0 < ?u" by simp
  have "(2::rat) powi ?e < 2 powi (- 1)" using ilog2_bounds(1) [OF assms(1)] assms(2) by simp
  then have e: "?e + 1 \<le> - 1"
    using power_int_increasing [of "- 1" ?e "2::rat"] by (cases "?e + 1 \<le> - 1") auto
  have "2 powi (?e + 1) = 2 ^ 24 * ?u" by (simp add: power_int_diff power_int_add)
  then have "x < 2 ^ 24 * ?u" using ilog2_bounds(2) [OF assms(1)] by simp
  then have "x / ?u < 2 ^ 24" using upos by (simp add: pos_divide_less_eq)
  then have "x / ?u < of_int (2 ^ 24)" by simp
  then have "\<lfloor>x / ?u\<rfloor> < 2 ^ 24" by (simp only: floor_less_iff)
  then have "rne (x / ?u) \<le> 2 ^ 24" using rne_bounds(2) [of "x / ?u"] by linarith
  then have "(of_int (rne (x / ?u)) :: rat) \<le> of_int (2 ^ 24)" by (simp only: of_int_le_iff)
  then have "of_int (rne (x / ?u)) * ?u \<le> 2 ^ 24 * ?u" using upos by simp
  also have "\<dots> = 2 powi (?e + 1)" using \<open>2 powi (?e + 1) = 2 ^ 24 * ?u\<close> by simp
  also have "\<dots> \<le> 2 powi (- 1)" using e by (intro power_int_increasing) simp_all
  finally show ?thesis using assms(1) by (simp add: round32_def Let_def)
qed

lemma round32_mid:
  assumes "1 / 2 \<le> x" and "x < 1"
  shows "round32 x = of_int (rne (x * 2 ^ 24)) / 2 ^ 24"
proof -
  have "ilog2 x = - 1" using assms by (intro ilog2_unique) simp_all
  moreover have "x \<noteq> 0" using assms by auto
  ultimately show ?thesis by (simp add: round32_def Let_def power_int_def power_inverse field_simps)
qed

lemma rne_threshold: "(11072963 \<le> rne y) = (22145925 / 2 < y)"
proof -
  have f: "of_int \<lfloor>y\<rfloor> \<le> y" "y < of_int \<lfloor>y\<rfloor> + 1" by linarith+
  show ?thesis
  proof (cases "\<lfloor>y\<rfloor> \<le> 11072961")
    case True
    then have "rne y \<le> 11072962" using rne_bounds(2) [of y] by linarith
    moreover have "y < 11072962" using True f(2) by linarith
    ultimately show ?thesis by simp
  next
    case False
    show ?thesis
    proof (cases "\<lfloor>y\<rfloor> = 11072962")
      case True
      then show ?thesis by (simp add: rne_def Let_def)
    next
      case False
      with \<open>\<not> \<lfloor>y\<rfloor> \<le> 11072961\<close> have g: "11072963 \<le> \<lfloor>y\<rfloor>" by linarith
      then have "11072963 \<le> rne y" using rne_bounds(1) [of y] by linarith
      moreover have "of_int 11072963 \<le> y" using g by (simp only: le_floor_iff)
      ultimately show ?thesis by simp
    qed
  qed
qed

lemma round32_threshold: "round32 (66 / 100) = 11072963 / 2 ^ 24"
  by code_simp

lemma SignatureThreshold_value: "SignatureThreshold = Finite (11072963 / 2 ^ 24)"
  by (simp only: SignatureThreshold_def round32_threshold)

lemma round32_ge_threshold:
  assumes "0 \<le> x"
  shows "(11072963 / 2 ^ 24 \<le> round32 x) = (22145925 / 2 ^ 25 < x)"
proof -
  consider "x = 0" | "0 < x" "x < 1 / 2" | "1 / 2 \<le> x" "x < 1" | "1 \<le> x"
    using assms by linarith
  then show ?thesis
  proof cases
    case 1
    then show ?thesis by (simp add: round32_def)
  next
    case 2
    then have "round32 x \<le> 1 / 2" by (rule round32_lt_half)
    then show ?thesis using 2 by simp
  next
    case 3
    have "(11072963 / 2 ^ 24 \<le> round32 x) = (11072963 \<le> rne (x * 2 ^ 24))"
      by (simp add: round32_mid [OF 3] field_simps)
    also have "\<dots> = (22145925 / 2 < x * 2 ^ 24)" by (rule rne_threshold)
    also have "\<dots> = (22145925 / 2 ^ 25 < x)" by (simp add: field_simps)
    finally show ?thesis .
  next
    case 4
    then have "1 \<le> round32 x" by (rule round32_ge1)
    then show ?thesis using 4 by simp
  qed
qed

lemma round32_0: "round32 0 = 0"
  by (simp add: round32_def)


lemma majorityVote_iff:
  assumes "length (CheckVotes.Miners wch) < 2 ^ 24" and "length (SubnetState.Miners st) < 2 ^ 24"
  shows "majorityVote st wch =
     (if length (SubnetState.Miners st) = 0 then 0 < length (CheckVotes.Miners wch)
      else 22145925 * length (SubnetState.Miners st) < length (CheckVotes.Miners wch) * 2 ^ 25)"
proof -
  let ?a = "length (CheckVotes.Miners wch)"
  let ?b = "length (SubnetState.Miners st)"
  show ?thesis
  proof (cases "?b = 0")
    case True
    then show ?thesis
      using assms
      by (simp add: majorityVote_def float32_of_len_def round32_exact round32_0
          SignatureThreshold_value)
  next
    case False
    have "majorityVote st wch = (11072963 / 2 ^ 24 \<le> round32 (of_nat ?a / of_nat ?b))"
      using False assms
      by (simp add: majorityVote_def float32_of_len_def round32_exact SignatureThreshold_value)
    also have "\<dots> = (22145925 / 2 ^ 25 < (of_nat ?a / of_nat ?b :: rat))"
      by (rule round32_ge_threshold) simp
    also have "\<dots> = ((22145925 :: rat) * of_nat ?b < of_nat ?a * 2 ^ 25)"
      using False by (simp add: field_simps)
    also have "\<dots> = (22145925 * ?b < ?a * 2 ^ 25)"
      by (metis (no_types) of_nat_less_iff of_nat_mult of_nat_numeral of_nat_power)
    finally show ?thesis using False by simp
  qed
qed

subsection \<open>The majority test\<close>

text \<open>
  Claim C8, as the code has it. With fewer than \<open>2^24\<close> voters and miners (their
  lengths convert to \<open>float32\<close> exactly), \<open>majorityVote\<close> holds exactly when
  \<open>22145925 * miners < voters * 2^25\<close>, that is when the quotient of voters by miners
  rounds to at least \<open>float32(0.66)\<close>; without miners it holds exactly when there is a
  voter. So it holds whenever at least 66 percent of the miners have voted, hence
  whenever at least two-thirds have; and with 3 miners it holds exactly from the second
  vote on.
\<close>

theorem majorityVote_threshold:
  assumes "length (CheckVotes.Miners wch) < 2 ^ 24" and "length (SubnetState.Miners st) < 2 ^ 24"
  shows "majorityVote st wch =
           (if length (SubnetState.Miners st) = 0 then 0 < length (CheckVotes.Miners wch)
            else 22145925 * length (SubnetState.Miners st)
                   < length (CheckVotes.Miners wch) * 2 ^ 25)
       \<and> (0 < length (SubnetState.Miners st)
           \<and> 66 * length (SubnetState.Miners st) \<le> 100 * length (CheckVotes.Miners wch)
           \<longrightarrow> majorityVote st wch)
       \<and> (0 < length (SubnetState.Miners st)
           \<and> 2 * length (SubnetState.Miners st) \<le> 3 * length (CheckVotes.Miners wch)
           \<longrightarrow> majorityVote st wch)
       \<and> (length (SubnetState.Miners st) = 3
           \<longrightarrow> majorityVote st wch = (2 \<le> length (CheckVotes.Miners wch)))"
proof -
  let ?a = "length (CheckVotes.Miners wch)"
  let ?b = "length (SubnetState.Miners st)"
  have p66: "0 < b \<Longrightarrow> 66 * b \<le> 100 * a \<Longrightarrow> 22145925 * b < a * 2 ^ 25" for a b :: nat
    by simp
  have p23: "0 < b \<Longrightarrow> 2 * b \<le> 3 * a \<Longrightarrow> 22145925 * b < a * 2 ^ 25" for a b :: nat
    by simp
  have p3: "b = 3 \<Longrightarrow> (22145925 * b < a * 2 ^ 25) = (2 \<le> a)" for a b :: nat
    by auto
  note iff = majorityVote_iff [OF assms]
  have pos: "0 < ?b \<Longrightarrow> majorityVote st wch = (22145925 * ?b < ?a * 2 ^ 25)"
    by (simp only: iff) simp
  have c2: "0 < ?b \<and> 66 * ?b \<le> 100 * ?a \<longrightarrow> majorityVote st wch"
    using pos p66 [where a = ?a and b = ?b] by blast
  have c3: "0 < ?b \<and> 2 * ?b \<le> 3 * ?a \<longrightarrow> majorityVote st wch"
    using pos p23 [where a = ?a and b = ?b] by blast
  have c4: "?b = 3 \<longrightarrow> majorityVote st wch = (2 \<le> ?a)"
  proof
    assume h: "?b = 3"
    then have "0 < ?b" by (simp only: zero_less_numeral)
    then show "majorityVote st wch = (2 \<le> ?a)"
      using pos p3 [where a = ?a and b = ?b] h by blast
  qed
  show ?thesis using iff c2 c3 c4 by blast
qed

text \<open>The theorem for a subnet of 3 miners: no majority with one vote, majority with two.\<close>

theorem majorityVote_threshold_witness:
  "(let st = \<lparr>Name = ''s'', SubnetState.ParentID = [''root''], Consensus = Delegated,
               MinMinerStake = 10 ^ 18, SubnetState.Miners = [''t0101'', ''t0102'', ''t0103''],
               TotalStake = 3 * 10 ^ 18, SubnetState.Stake = Map.empty,
               SubnetState.Status = SubnetStatus.Active, Genesis = [],
               SubnetState.CheckPeriod = 10, SubnetState.Checkpoints = Map.empty,
               WindowChecks = Map.empty\<rparr>
    in \<not> majorityVote st \<lparr>CheckVotes.Miners = [''t0101'']\<rparr>
       \<and> majorityVote st \<lparr>CheckVotes.Miners = [''t0101'', ''t0103'']\<rparr>)"
proof -
  let ?st = "\<lparr>Name = ''s'', SubnetState.ParentID = [''root''], Consensus = Delegated,
               MinMinerStake = 10 ^ 18, SubnetState.Miners = [''t0101'', ''t0102'', ''t0103''],
               TotalStake = 3 * 10 ^ 18, SubnetState.Stake = Map.empty,
               SubnetState.Status = SubnetStatus.Active, Genesis = [],
               SubnetState.CheckPeriod = 10, SubnetState.Checkpoints = Map.empty,
               WindowChecks = Map.empty\<rparr>"
  show ?thesis
    using majorityVote_threshold [of "\<lparr>CheckVotes.Miners = [''t0101'']\<rparr>" ?st]
      majorityVote_threshold [of "\<lparr>CheckVotes.Miners = [''t0101'', ''t0103'']\<rparr>" ?st]
    by (simp add: Let_def)
qed

text \<open>
  Against the claim as the spec words it (the test holds exactly when at least
  two-thirds of the miners have voted): with 53 miners, 35 votes pass the test, and 35
  is fewer than two-thirds of 53.
\<close>

theorem majorityVote_below_two_thirds_counterexample:
  "majorityVote
     \<lparr>Name = ''s'', SubnetState.ParentID = [''root''], Consensus = Delegated,
      MinMinerStake = 10 ^ 18,
      SubnetState.Miners = map (\<lambda>n. CHR ''t'' # replicate n CHR ''1'') [0..<53],
      TotalStake = 53 * 10 ^ 18, SubnetState.Stake = Map.empty,
      SubnetState.Status = SubnetStatus.Active, Genesis = [],
      SubnetState.CheckPeriod = 10, SubnetState.Checkpoints = Map.empty,
      WindowChecks = Map.empty\<rparr>
     \<lparr>CheckVotes.Miners = map (\<lambda>n. CHR ''t'' # replicate n CHR ''1'') [0..<35]\<rparr>
   \<and> 3 * length (map (\<lambda>n. CHR ''t'' # replicate n CHR ''1'') [0..<35])
        < 2 * length (map (\<lambda>n. CHR ''t'' # replicate n CHR ''1'') [0..<53])"
  by (simp add: majorityVote_iff)

section \<open>Properties of block messages\<close>

text \<open>
  What \<open>DecodeBlockMsg\<close> does for every byte string and every pair of decoders: it
  returns an error exactly when both the decode in the current format and the decode in
  the legacy format return one, and the error is that of the legacy decode. When the
  current decode fails and the legacy decode gives \<open>obm\<close>, the result carries the header
  and the BLS and Secpk lists of \<open>obm\<close>; \<open>DecodeBlockMsg\<close> never assigns
  \<open>CrossMessages\<close>, so that field is what the failed decode left in its variable. When
  the current decode succeeds its message is returned.
\<close>

lemma DecodeBlockMsg_result:
  "((\<exists>err. DecodeBlockMsg um oum b = Inl err) = (snd (um b) \<noteq> None \<and> snd (oum b) \<noteq> None))
   \<and> (DecodeBlockMsg um oum b = Inl err \<longrightarrow> snd (oum b) = Some err)
   \<and> (snd (um b) \<noteq> None \<and> oum b = (obm, None) \<longrightarrow>
        DecodeBlockMsg um oum b =
          Inr \<lparr>BlockMsg.Header = OldBlockMsg.Header obm,
               BlockMsg.BlsMessages = OldBlockMsg.BlsMessages obm,
               BlockMsg.SecpkMessages = OldBlockMsg.SecpkMessages obm,
               CrossMessages = CrossMessages (fst (um b))\<rparr>)
   \<and> (um b = (bm, None) \<longrightarrow> DecodeBlockMsg um oum b = Inr bm)"
  by (cases "um b"; cases "oum b") (auto simp: DecodeBlockMsg_def split: option.splits)

end
